theory Spec2Isabelle
  imports Complex_Main
begin

section \<open>Python runtime values used by the bot\<close>

text \<open>
  The bot is written in Python on top of python-telegram-bot. Exceptions are values of
  \<open>py_error\<close>; a handler that raises returns \<open>Inl e\<close>.
\<close>

datatype py_error = ValueError | KeyError | TypeError | IndexError | ZeroDivisionError | DatabaseError

text \<open>\<open>str(n)\<close> for a Python int: decimal digits, a leading minus sign for negatives.\<close>

fun digits10 :: "nat \<Rightarrow> string" where
  "digits10 n = (if n < 10 then [''0123456789'' ! n]
                 else digits10 (n div 10) @ [''0123456789'' ! (n mod 10)])"

declare digits10.simps [simp del]

definition str_int :: "int \<Rightarrow> string" where
  "str_int i = (if i < 0 then CHR ''-'' # digits10 (nat (- i)) else digits10 (nat i))"

text \<open>
  Python list slicing \<open>xs[i:j]\<close>: a negative bound counts from the end, and both bounds
  are clipped to the list.
\<close>

definition py_clip :: "int \<Rightarrow> int \<Rightarrow> nat" where
  "py_clip n k = (if k < 0 then nat (max (n + k) 0) else nat (min k n))"

definition py_slice :: "'a list \<Rightarrow> int \<Rightarrow> int \<Rightarrow> 'a list" where
  "py_slice xs i j =
     (let n = int (length xs); a = py_clip n i; b = py_clip n j
      in take (b - a) (drop a xs))"

text \<open>\<open>xs[k]\<close> for \<open>k \<ge> 0\<close>: IndexError past the end.\<close>

definition py_index :: "'a list \<Rightarrow> nat \<Rightarrow> py_error + 'a" where
  "py_index xs k = (if k < length xs then Inr (xs ! k) else Inl IndexError)"

text \<open>\<open>s.split(c)\<close>: every separator ends a field; the result is never empty.\<close>

fun split_on :: "char \<Rightarrow> string \<Rightarrow> string list" where
  "split_on c [] = [[]]"
| "split_on c (x # xs) =
     (if x = c then [] # split_on c xs
      else (case split_on c xs of
              [] \<Rightarrow> [[x]]
            | w # ws \<Rightarrow> (x # w) # ws))"

text \<open>\<open>s.startswith(p)\<close>.\<close>

definition startswith :: "string \<Rightarrow> string \<Rightarrow> bool" where
  "startswith s p = (take (length p) s = p)"

text \<open>\<open>sep.join(xs)\<close>.\<close>

fun py_join :: "string \<Rightarrow> string list \<Rightarrow> string" where
  "py_join sep [] = []"
| "py_join sep [x] = x"
| "py_join sep (x # y # ys) = x @ sep @ py_join sep (y # ys)"

text \<open>
  \<open>s.strip()\<close> drops the white space of \<open>str.isspace\<close> at both ends; in ASCII these are
  the characters 0x09 to 0x0D, 0x1C to 0x1F and the space.
\<close>

definition is_space :: "char \<Rightarrow> bool" where
  "is_space c = (c \<in> set [CHR 0x20, CHR 0x09, CHR 0x0A, CHR 0x0B, CHR 0x0C, CHR 0x0D,
                            CHR 0x1C, CHR 0x1D, CHR 0x1E, CHR 0x1F])"

definition strip :: "string \<Rightarrow> string" where
  "strip s = rev (dropWhile is_space (rev (dropWhile is_space s)))"

text \<open>
  \<open>int(s)\<close> on an ASCII string: surrounding white space is dropped, one sign may lead,
  and the digits may be grouped by single underscores. \<open>None\<close> is ValueError. The white
  space \<open>int\<close> skips in an ASCII string is that of C's \<open>isspace\<close>, 0x09 to 0x0D and the
  space: \<open>int('\x1c5')\<close> raises ValueError. The limit on the number of digits (4300 by
  default) is not modelled; a \<open>callback_data\<close> token has at most 64 bytes.
\<close>

definition int_space :: "char \<Rightarrow> bool" where
  "int_space c = (c \<in> set [CHR 0x20, CHR 0x09, CHR 0x0A, CHR 0x0B, CHR 0x0C, CHR 0x0D])"

definition int_strip :: "string \<Rightarrow> string" where
  "int_strip s = rev (dropWhile int_space (rev (dropWhile int_space s)))"

definition digit_of :: "char \<Rightarrow> int option" where
  "digit_of = map_of [(CHR ''0'', 0), (CHR ''1'', 1), (CHR ''2'', 2), (CHR ''3'', 3),
                      (CHR ''4'', 4), (CHR ''5'', 5), (CHR ''6'', 6), (CHR ''7'', 7),
                      (CHR ''8'', 8), (CHR ''9'', 9)]"

definition digits_value :: "string \<Rightarrow> int" where
  "digits_value ds = foldl (\<lambda>a c. 10 * a + the (digit_of c)) 0 ds"

definition py_nat :: "string \<Rightarrow> int option" where
  "py_nat s =
     (let groups = split_on CHR ''_'' s
      in if list_all (\<lambda>g. g \<noteq> [] \<and> list_all (\<lambda>c. digit_of c \<noteq> None) g) groups
         then Some (digits_value (concat groups)) else None)"

definition py_int :: "string \<Rightarrow> int option" where
  "py_int s =
     (case int_strip s of
        [] \<Rightarrow> None
      | c # cs \<Rightarrow>
          if c = CHR ''-'' then map_option uminus (py_nat cs)
          else if c = CHR ''+'' then py_nat cs
          else py_nat (c # cs))"

text \<open>The format \<open>{i:02d}\<close>: at least two characters, padded with a zero.\<close>

definition fmt02 :: "int \<Rightarrow> string" where
  "fmt02 i = (if 0 \<le> i \<and> i < 10 then CHR ''0'' # str_int i else str_int i)"

text \<open>
  A Python float is a finite value, an infinity or NaN. Every finite binary64 value is
  a rational, so \<open>Fin\<close> over all rationals covers them. Comparisons with NaN are false.
\<close>

datatype pyfloat = Fin rat | PosInf | NegInf | NaN

fun float_le :: "pyfloat \<Rightarrow> rat \<Rightarrow> bool" where
  "float_le (Fin x) c = (x \<le> c)"
| "float_le NegInf c = True"
| "float_le PosInf c = False"
| "float_le NaN c = False"

fun float_gt :: "pyfloat \<Rightarrow> rat \<Rightarrow> bool" where
  "float_gt (Fin x) c = (x > c)"
| "float_gt PosInf c = True"
| "float_gt NegInf c = False"
| "float_gt NaN c = False"

datatype pyval = PInt int | PFloat pyfloat | PStr string | PNone

text \<open>Truth value of a Python object, as \<open>x or default\<close> tests it.\<close>

fun truthy :: "pyval \<Rightarrow> bool" where
  "truthy PNone = False"
| "truthy (PStr s) = (s \<noteq> [])"
| "truthy (PInt i) = (i \<noteq> 0)"
| "truthy (PFloat f) = (f \<noteq> Fin 0)"

text \<open>\<open>context.user_data\<close>: a dict from key strings to values.\<close>

type_synonym user_data = "string \<rightharpoonup> pyval"

section \<open>Rendering instructions\<close>

text \<open>
  The captions and message texts of the source are Russian; they are named here by
  constructors, or by \<open>Caption\<close> with an English gloss. \<open>Txt\<close> is a caption given
  literally. A button is its caption and its \<open>callback_data\<close> token.
\<close>

datatype label =
    Txt string
  | Caption string
  | PrevPage | NextPage | DeleteEntryCaption
  | ProjectCaption bool string rat
  | AdminPrevPage | AdminNextPage | AddProjectCaption | AdminMenuCaption
  | ArrowPrev | ArrowNext | MonthYear int int | WeekdayCaption nat | BackToReports

datatype button = Button label string

fun callback_data :: "button \<Rightarrow> string" where
  "callback_data (Button c t) = t"

type_synonym keyboard = "button list list"

text \<open>
  The texts the bot sends. \<open>Banned\<close> is "your account is blocked, contact the
  administrator", \<open>BannedShort\<close> the same without the second sentence;
  \<open>UnavailablePeriod\<close> is "period not available"; \<open>BadHoursRange\<close> is "incorrect number of
  hours, enter a number from 0.1 to 24"; \<open>BadHoursFormat\<close> is "incorrect format, enter a
  number"; \<open>EndBeforeStart\<close>, \<open>PeriodTooLong\<close> and \<open>DateError\<close> are the three notices of
  the report range check. A constructor's arguments are the values its text shows.
\<close>

datatype msg =
    NoEntries
  | EntriesPage int int int "int list"
  | Banned | BannedShort
  | NoProjects | SelectProject
  | HoursPrompt string
  | HoursCustomPrompt pyval
  | DescriptionPrompt pyval pyfloat
  | BadHoursRange | BadHoursFormat
  | SelectDatePrompt pyval pyval "pyval option"
  | UseDateButtons
  | EntryAdded pyval pyval "pyval option" string
  | UnavailablePeriod
  | ProjectCreated string | ProjectExists string | ProjectsMenu
  | MainMenu
  | ReportsMenu | UserReportsMenu int
  | ReportStartPrompt | ReportEndPrompt pyval
  | EndBeforeStart | PeriodTooLong | DateError
  | ReportText string | UnknownReport
  | CsvSent | CsvError
  | AccessDenied | EnterProjectName | UnknownCommand
  | HelpText | AdminPanel | UnknownAction

text \<open>
  What a handler does to the outside: answers to the callback query, edited and new
  messages, the main menu (a reply keyboard, with or without the admin button), a row
  inserted by \<open>add_time_entry\<close> (user, project, hours, description, date string), a CSV
  document sent for a user, and \<open>Other\<close> for the rendering of a handler that neither
  reads nor writes \<open>user_data\<close>.
\<close>

datatype action =
    Answer "msg option"
  | EditText msg "keyboard option"
  | Reply msg "keyboard option"
  | ReplyMenu msg bool
  | Inserted int pyval pyval pyval string
  | SendDocument pyval string bool
  | Other string

datatype source = ViaCallback | ViaMessage

section \<open>Pagination\<close>

text \<open>
  \<open>get_user_entries_paginated\<close> runs \<open>SELECT ... LIMIT limit OFFSET offset\<close> over the
  user's rows (given here by their entry ids, newest first). PostgreSQL refuses a
  negative LIMIT or OFFSET, and the cursor context manager re-raises.
\<close>

definition get_user_entries_paginated :: "int list \<Rightarrow> int \<Rightarrow> int \<Rightarrow> py_error + int list" where
  "get_user_entries_paginated rows limit offset =
     (if offset < 0 \<or> limit < 0 then Inl DatabaseError
      else Inr (take (nat limit) (drop (nat offset) rows)))"

text \<open>
  \<open>show_my_entries_page\<close> (bot.py): the page size is the constant 5; the page count is
  computed only when the page holds rows. \<open>EntriesPage p n off rows\<close> is the text
  "page p of n" listing \<open>rows\<close>, numbered from \<open>off + 1\<close>.
\<close>

definition show_my_entries_page :: "source \<Rightarrow> int list \<Rightarrow> int \<Rightarrow> py_error + action list" where
  "show_my_entries_page via rows page =
     (let entries_per_page = 5;
          offset = page * entries_per_page;
          total_entries = int (length rows)
      in case get_user_entries_paginated rows entries_per_page offset of
           Inl e \<Rightarrow> Inl e
         | Inr entries \<Rightarrow>
             let (text, keyboard) =
               (if entries = [] then (NoEntries, [])
                else
                  let total_pages = (total_entries + entries_per_page - 1) div entries_per_page;
                      nav_row =
                        (if page > 0
                         then [Button PrevPage (''entries_page_'' @ str_int (page - 1))] else []) @
                        (if page < total_pages - 1
                         then [Button NextPage (''entries_page_'' @ str_int (page + 1))] else [])
                  in (EntriesPage (page + 1) total_pages offset entries,
                      (if nav_row \<noteq> [] then [nav_row] else []) @
                      [[Button DeleteEntryCaption (''delete_entries_page_'' @ str_int page)]]))
             in Inr (case via of
                       ViaCallback \<Rightarrow>
                         Answer None #
                         (if keyboard \<noteq> [] then [EditText text (Some keyboard)]
                          else [Reply text None])
                     | ViaMessage \<Rightarrow>
                         [Reply text (if keyboard \<noteq> [] then Some keyboard else None)]))"

text \<open>
  \<open>AdminManager.get_projects_keyboard\<close> (admin.py). A project row is
  (id, name, is_active, total hours); the columns the keyboard does not read are left
  out. \<open>total_pages\<close> is line 189: the division is evaluated only for a non-empty list.
\<close>

type_synonym project_row = "int \<times> string \<times> bool \<times> rat"

definition total_pages :: "nat \<Rightarrow> int \<Rightarrow> py_error + int" where
  "total_pages n page_size =
     (if n \<noteq> 0
      then (if page_size = 0 then Inl ZeroDivisionError
            else Inr ((int n - 1) div page_size + 1))
      else Inr 1)"

fun project_button :: "project_row \<Rightarrow> button list" where
  "project_button (proj_id, name, is_active, hours) =
     [Button (ProjectCaption is_active name hours) (''admin_project_'' @ str_int proj_id)]"

definition get_projects_keyboard :: "project_row list \<Rightarrow> int \<Rightarrow> int \<Rightarrow> py_error + keyboard" where
  "get_projects_keyboard projects page page_size =
     (case total_pages (length projects) page_size of
        Inl e \<Rightarrow> Inl e
      | Inr pages \<Rightarrow>
          let start_idx = page * page_size;
              end_idx = start_idx + page_size;
              page_projects = py_slice projects start_idx end_idx;
              nav_buttons =
                (if page > 0
                 then [Button AdminPrevPage (''admin_projects_page_'' @ str_int (page - 1))] else []) @
                (if page < pages - 1
                 then [Button AdminNextPage (''admin_projects_page_'' @ str_int (page + 1))] else [])
          in Inr (map project_button page_projects @
                  (if nav_buttons \<noteq> [] then [nav_buttons] else []) @
                  [[Button AddProjectCaption ''admin_add_project'',
                    Button AdminMenuCaption ''admin_menu'']]))"

section \<open>Dates and the month grid\<close>

text \<open>
  A \<open>datetime.date\<close> is (year, month, day) in the proleptic Gregorian calendar, years
  1 to 9999; the constructor raises ValueError outside it. Dates compare
  lexicographically, and \<open>toordinal\<close> counts days from 0001-01-01 = 1.
\<close>

type_synonym date = "int \<times> int \<times> int"

definition isleap :: "int \<Rightarrow> bool" where
  "isleap y = (y mod 4 = 0 \<and> (y mod 100 \<noteq> 0 \<or> y mod 400 = 0))"

definition days_in_month :: "int \<Rightarrow> int \<Rightarrow> int" where
  "days_in_month y m =
     (if m = 2 then (if isleap y then 29 else 28)
      else if m = 4 \<or> m = 6 \<or> m = 9 \<or> m = 11 then 30 else 31)"

definition py_date :: "int \<Rightarrow> int \<Rightarrow> int \<Rightarrow> py_error + date" where
  "py_date y m d =
     (if 1 \<le> y \<and> y \<le> 9999 \<and> 1 \<le> m \<and> m \<le> 12 \<and> 1 \<le> d \<and> d \<le> days_in_month y m
      then Inr (y, m, d) else Inl ValueError)"

fun date_lt :: "date \<Rightarrow> date \<Rightarrow> bool" where
  "date_lt (y1, m1, d1) (y2, m2, d2) =
     (y1 < y2 \<or> (y1 = y2 \<and> (m1 < m2 \<or> (m1 = m2 \<and> d1 < d2))))"

definition days_before_year :: "int \<Rightarrow> int" where
  "days_before_year y = (y - 1) * 365 + (y - 1) div 4 - (y - 1) div 100 + (y - 1) div 400"

definition days_before_month :: "int \<Rightarrow> int \<Rightarrow> int" where
  "days_before_month y m = sum_list (map (days_in_month y) [1..m - 1])"

fun toordinal :: "date \<Rightarrow> int" where
  "toordinal (y, m, d) = days_before_year y + days_before_month y m + d"

text \<open>\<open>date.weekday()\<close>: Monday is 0.\<close>

definition weekday :: "date \<Rightarrow> int" where
  "weekday dt = (toordinal dt + 6) mod 7"

text \<open>
  \<open>calendar.monthcalendar(year, month)\<close> of the standard library, first weekday Monday:
  the days of the month in rows of seven, padded with 0 on both sides. A month outside
  1..12 raises IllegalMonthError, a ValueError; a year outside 1..9999 is replaced by
  \<open>2000 + year mod 400\<close> for the weekday.
\<close>

definition monthrange :: "int \<Rightarrow> int \<Rightarrow> py_error + int \<times> int" where
  "monthrange year month =
     (if \<not> (1 \<le> month \<and> month \<le> 12) then Inl ValueError
      else
        let y = (if 1 \<le> year \<and> year \<le> 9999 then year else 2000 + year mod 400)
        in Inr (weekday (y, month, 1), days_in_month year month))"

fun chunks7 :: "'a list \<Rightarrow> 'a list list" where
  "chunks7 [] = []"
| "chunks7 (x # xs) = take 7 (x # xs) # chunks7 (drop 7 (x # xs))"

definition monthcalendar :: "int \<Rightarrow> int \<Rightarrow> py_error + int list list" where
  "monthcalendar year month =
     (case monthrange year month of
        Inl e \<Rightarrow> Inl e
      | Inr (day1, ndays) \<Rightarrow>
          let days_before = day1 mod 7;
              days_after = (- day1 - ndays) mod 7
          in Inr (chunks7 (replicate (nat days_before) 0 @ [1..ndays] @
                           replicate (nat days_after) 0)))"

text \<open>The first exception of a loop ends it: \<open>collect\<close> keeps the results up to it.\<close>

fun collect :: "('e + 'a) list \<Rightarrow> 'e + 'a list" where
  "collect [] = Inr []"
| "collect (x # xs) =
     (case x of
        Inl e \<Rightarrow> Inl e
      | Inr v \<Rightarrow> (case collect xs of Inl e \<Rightarrow> Inl e | Inr vs \<Rightarrow> Inr (v # vs)))"

text \<open>
  \<open>generate_calendar\<close> (bot.py): the add-entry calendar. \<open>today\<close> is
  \<open>datetime.now().date()\<close>. \<open>day_button\<close> is the body of the inner loop.
\<close>

definition day_button :: "int \<Rightarrow> int \<Rightarrow> date \<Rightarrow> int \<Rightarrow> py_error + button" where
  "day_button year month today day =
     (if day = 0 then Inr (Button (Txt '' '') ''cal_ignore'')
      else
        case py_date year month day of
          Inl e \<Rightarrow> Inl e
        | Inr date_obj \<Rightarrow>
            if date_lt today date_obj
            then Inr (Button (Txt (''('' @ str_int day @ '')'')) ''cal_ignore'')
            else Inr (Button (Txt (str_int day))
                        (''cal_select_'' @ str_int year @ ''_'' @ str_int month @ ''_'' @
                         str_int day)))"

definition generate_calendar :: "int \<Rightarrow> int \<Rightarrow> date \<Rightarrow> py_error + keyboard" where
  "generate_calendar year month today =
     (case monthcalendar year month of
        Inl e \<Rightarrow> Inl e
      | Inr cal \<Rightarrow>
          (case collect (map (\<lambda>week. collect (map (day_button year month today) week)) cal) of
             Inl e \<Rightarrow> Inl e
           | Inr rows \<Rightarrow>
               Inr ([Button ArrowPrev (''cal_prev_'' @ str_int year @ ''_'' @ str_int month),
                     Button (MonthYear month year) ''cal_ignore'',
                     Button ArrowNext (''cal_next_'' @ str_int year @ ''_'' @ str_int month)] #
                    [Button (WeekdayCaption 0) ''cal_ignore'',
                     Button (WeekdayCaption 1) ''cal_ignore'',
                     Button (WeekdayCaption 2) ''cal_ignore'',
                     Button (WeekdayCaption 3) ''cal_ignore'',
                     Button (WeekdayCaption 4) ''cal_ignore'',
                     Button (WeekdayCaption 5) ''cal_ignore'',
                     Button (WeekdayCaption 6) ''cal_ignore''] #
                    rows)))"

text \<open>
  \<open>generate_report_calendar\<close> (bot.py): every day of the month is selectable, and a
  last row leads back to the reports menu.
\<close>

definition report_day_button :: "int \<Rightarrow> int \<Rightarrow> int \<Rightarrow> py_error + button" where
  "report_day_button year month day =
     (if day = 0 then Inr (Button (Txt '' '') ''report_cal_ignore'')
      else
        case py_date year month day of
          Inl e \<Rightarrow> Inl e
        | Inr date_obj \<Rightarrow>
            Inr (Button (Txt (str_int day))
                   (''report_cal_select_'' @ str_int year @ ''_'' @ str_int month @ ''_'' @
                    str_int day)))"

definition generate_report_calendar :: "int \<Rightarrow> int \<Rightarrow> py_error + keyboard" where
  "generate_report_calendar year month =
     (case monthcalendar year month of
        Inl e \<Rightarrow> Inl e
      | Inr cal \<Rightarrow>
          (case collect (map (\<lambda>week. collect (map (report_day_button year month) week)) cal) of
             Inl e \<Rightarrow> Inl e
           | Inr rows \<Rightarrow>
               Inr ([Button ArrowPrev (''report_cal_prev_'' @ str_int year @ ''_'' @ str_int month),
                     Button (MonthYear month year) ''report_cal_ignore'',
                     Button ArrowNext (''report_cal_next_'' @ str_int year @ ''_'' @ str_int month)] #
                    [Button (WeekdayCaption 0) ''report_cal_ignore'',
                     Button (WeekdayCaption 1) ''report_cal_ignore'',
                     Button (WeekdayCaption 2) ''report_cal_ignore'',
                     Button (WeekdayCaption 3) ''report_cal_ignore'',
                     Button (WeekdayCaption 4) ''report_cal_ignore'',
                     Button (WeekdayCaption 5) ''report_cal_ignore'',
                     Button (WeekdayCaption 6) ''report_cal_ignore''] #
                    rows @ [[Button BackToReports ''reports'']])))"

section \<open>The bot's collaborators\<close>

text \<open>
  What a handler reads from outside its arguments: the clock, the database and, for
  the text-to-float conversion, the interpreter.
  \<^item> \<open>current_date\<close> is \<open>datetime.now()\<close> as a date;
  \<^item> \<open>is_banned\<close> and \<open>is_admin\<close> are \<open>AdminManager.is_banned\<close> and \<open>is_admin\<close>;
  \<^item> \<open>get_projects\<close> is the list of active projects (id, name);
  \<^item> \<open>project_name\<close> is the row of \<open>SELECT name FROM projects WHERE id = ...\<close>;
  \<^item> \<open>add_time_entry\<close> tells whether the INSERT of the row succeeds; when it does not,
    the cursor context manager re-raises the database error;
  \<^item> \<open>add_project\<close> is \<open>AdminManager.add_project\<close>, which catches its own errors;
  \<^item> \<open>all_projects\<close> is \<open>AdminManager.get_all_projects\<close>, \<open>user_rows\<close> the entry ids of a
    user, newest first;
  \<^item> \<open>report\<close>, \<open>custom_period_report\<close> and \<open>export_to_csv\<close> are the report service, \<open>None\<close>
    when the call raises;
  \<^item> \<open>float_of\<close> is Python's \<open>float(s)\<close>, \<open>None\<close> for ValueError;
  \<^item> \<open>screen name user args\<close> is what a handler of the delete flows or of the admin
    screens does once it has read its integer arguments from the token: queries and
    updates of the database and rendering, for the acting user and these arguments. It
    is the exception the handler raises there, if any, and what it rendered. These
    handlers return \<open>None\<close> and neither read nor write \<open>user_data\<close>.
\<close>

datatype report_kind = Today | Week | Projects | WeeklySummary | Productivity

record env =
  current_date :: date
  is_banned :: "int \<Rightarrow> bool"
  is_admin :: "int \<Rightarrow> bool"
  get_projects :: "(int \<times> string) list"
  project_name :: "int \<Rightarrow> string option"
  add_time_entry :: "int \<Rightarrow> pyval \<Rightarrow> pyval \<Rightarrow> pyval \<Rightarrow> string \<Rightarrow> bool"
  add_project :: "string \<Rightarrow> bool"
  all_projects :: "project_row list"
  user_rows :: "int \<Rightarrow> int list"
  report :: "report_kind \<Rightarrow> pyval \<Rightarrow> string option"
  custom_period_report :: "pyval \<Rightarrow> string \<Rightarrow> string \<Rightarrow> string option"
  export_to_csv :: "pyval \<Rightarrow> string option"
  float_of :: "string \<Rightarrow> pyfloat option"
  screen :: "string \<Rightarrow> int \<Rightarrow> int list \<Rightarrow> py_error option \<times> action list"

section \<open>The add-entry wizard\<close>

text \<open>
  The states of the ConversationHandler, and what a handler returns: \<open>None\<close>,
  \<open>ConversationHandler.END\<close> or a state. A handler's result is its return value or the
  exception it raises, the \<open>user_data\<close> it leaves and what it rendered up to there.
\<close>

datatype conv_state = SELECTING_PROJECT | ENTERING_HOURS | ENTERING_DESCRIPTION | SELECTING_DATE

datatype ret = RetNone | RetEnd | RetState conv_state

type_synonym result = "(py_error + ret) \<times> user_data \<times> action list"

text \<open>\<open>int(parts[k])\<close>.\<close>

definition int_field :: "string list \<Rightarrow> nat \<Rightarrow> py_error + int" where
  "int_field parts k =
     (case py_index parts k of
        Inl e \<Rightarrow> Inl e
      | Inr s \<Rightarrow> (case py_int s of None \<Rightarrow> Inl ValueError | Some i \<Rightarrow> Inr i))"

text \<open>Several fields read one after the other: the first that fails raises.\<close>

fun int_fields :: "string list \<Rightarrow> nat list \<Rightarrow> py_error + int list" where
  "int_fields parts [] = Inr []"
| "int_fields parts (k # ks) =
     (case int_field parts k of
        Inl e \<Rightarrow> Inl e
      | Inr i \<Rightarrow> (case int_fields parts ks of Inl e \<Rightarrow> Inl e | Inr args \<Rightarrow> Inr (i # args)))"

text \<open>\<open>s.split(c, 1)[1]\<close>: what follows the first separator.\<close>

definition after_first :: "char \<Rightarrow> string \<Rightarrow> py_error + string" where
  "after_first c s =
     (case dropWhile (\<lambda>x. x \<noteq> c) s of [] \<Rightarrow> Inl IndexError | x # rest \<Rightarrow> Inr rest)"

text \<open>\<open>s.replace(a, b)\<close> for single characters.\<close>

definition replace_char :: "char \<Rightarrow> char \<Rightarrow> string \<Rightarrow> string" where
  "replace_char a b s = map (\<lambda>c. if c = a then b else c) s"

text \<open>
  \<open>strftime('%Y-%m-%d')\<close> and \<open>strftime('%d.%m.%Y')\<close> of a date (years 1000 to 9999),
  and the day before a date.
\<close>

fun iso_date :: "date \<Rightarrow> string" where
  "iso_date (y, m, d) = str_int y @ ''-'' @ fmt02 m @ ''-'' @ fmt02 d"

fun dmy_date :: "date \<Rightarrow> string" where
  "dmy_date (y, m, d) = fmt02 d @ ''.'' @ fmt02 m @ ''.'' @ str_int y"

fun prev_day :: "date \<Rightarrow> date" where
  "prev_day (y, m, d) =
     (if 1 < d then (y, m, d - 1)
      else if 1 < m then (y, m - 1, days_in_month y (m - 1))
      else (y - 1, 12, 31))"

text \<open>
  \<open>datetime.strptime(s, '%Y-%m-%d')\<close> on an ASCII string: a four-digit year, a month
  of one or two digits from 1 to 12, a day of one or two digits from 1 to 31 (or a
  space and one digit), nothing else, and the date must exist.
\<close>

definition all_digits :: "string \<Rightarrow> bool" where
  "all_digits s = list_all (\<lambda>c. digit_of c \<noteq> None) s"

text \<open>\<open>s.isdigit()\<close> on an ASCII string.\<close>

definition isdigit :: "string \<Rightarrow> bool" where
  "isdigit s = (s \<noteq> [] \<and> all_digits s)"

definition strptime :: "string \<Rightarrow> py_error + date" where
  "strptime s =
     (case split_on CHR ''-'' s of
        [ys, ms, ds] \<Rightarrow>
          let ds' = (if length ds = 2 \<and> hd ds = CHR '' '' then tl ds else ds)
          in if length ys = 4 \<and> all_digits ys \<and>
                1 \<le> length ms \<and> length ms \<le> 2 \<and> all_digits ms \<and>
                1 \<le> digits_value ms \<and> digits_value ms \<le> 12 \<and>
                1 \<le> length ds' \<and> length ds' \<le> 2 \<and> all_digits ds' \<and>
                1 \<le> digits_value ds' \<and> digits_value ds' \<le> 31
             then py_date (digits_value ys) (digits_value ms) (digits_value ds')
             else Inl ValueError
      | _ \<Rightarrow> Inl ValueError)"

text \<open>A text is sent by editing the message of the pressed button, or as a new message.\<close>

fun render :: "source \<Rightarrow> msg \<Rightarrow> keyboard option \<Rightarrow> action" where
  "render ViaCallback m kb = EditText m kb"
| "render ViaMessage m kb = Reply m kb"

text \<open>\<open>start_add_hours\<close>.\<close>

definition start_add_hours :: "env \<Rightarrow> int \<Rightarrow> source \<Rightarrow> user_data \<Rightarrow> result" where
  "start_add_hours env user_id via ctx =
     (if is_banned env user_id then (Inr RetEnd, ctx, [render via Banned None])
      else if get_projects env = [] then (Inr RetEnd, ctx, [render via NoProjects None])
      else (Inr (RetState SELECTING_PROJECT), ctx,
            [render via SelectProject
               (Some (map (\<lambda>(project_id, name).
                             [Button (Txt name) (''project_'' @ str_int project_id)])
                          (get_projects env)))]))"

text \<open>\<open>select_project\<close>: the id is stored before the name is looked up.\<close>

definition hours_keyboard :: keyboard where
  "hours_keyboard =
     [[Button (Caption ''0.5'') ''hours_0.5'', Button (Caption ''1'') ''hours_1'',
       Button (Caption ''2'') ''hours_2'', Button (Caption ''4'') ''hours_4''],
      [Button (Caption ''custom'') ''hours_custom'']]"

definition select_project :: "env \<Rightarrow> string \<Rightarrow> user_data \<Rightarrow> result" where
  "select_project env data ctx =
     (case int_field (split_on CHR ''_'' data) 1 of
        Inl e \<Rightarrow> (Inl e, ctx, [])
      | Inr project_id \<Rightarrow>
          let ctx1 = ctx(''selected_project_id'' \<mapsto> PInt project_id)
          in case project_name env project_id of
               None \<Rightarrow> (Inl TypeError, ctx1, [])
             | Some name \<Rightarrow>
                 (Inr (RetState ENTERING_HOURS),
                  ctx1(''selected_project_name'' \<mapsto> PStr name),
                  [EditText (HoursPrompt name) (Some hours_keyboard)]))"

text \<open>\<open>select_hours\<close> and \<open>handle_hours_input\<close>.\<close>

definition skip_keyboard :: keyboard where
  "skip_keyboard = [[Button (Caption ''skip'') ''skip_description'']]"

definition select_hours :: "env \<Rightarrow> string \<Rightarrow> user_data \<Rightarrow> result" where
  "select_hours env data ctx =
     (if data = ''hours_custom''
      then (case ctx ''selected_project_name'' of
              None \<Rightarrow> (Inl KeyError, ctx, [])
            | Some name \<Rightarrow> (Inr (RetState ENTERING_HOURS), ctx, [EditText (HoursCustomPrompt name) None]))
      else
        case py_index (split_on CHR ''_'' data) 1 of
          Inl e \<Rightarrow> (Inl e, ctx, [])
        | Inr s \<Rightarrow>
            (case float_of env s of
               None \<Rightarrow> (Inl ValueError, ctx, [])
             | Some hours \<Rightarrow>
                 let ctx1 = ctx(''selected_hours'' \<mapsto> PFloat hours)
                 in case ctx1 ''selected_project_name'' of
                      None \<Rightarrow> (Inl KeyError, ctx1, [])
                    | Some name \<Rightarrow>
                        (Inr (RetState ENTERING_DESCRIPTION), ctx1,
                         [EditText (DescriptionPrompt name hours) (Some skip_keyboard)])))"

definition handle_hours_input :: "env \<Rightarrow> string \<Rightarrow> user_data \<Rightarrow> result" where
  "handle_hours_input env text ctx =
     (case float_of env (replace_char CHR '','' CHR ''.'' text) of
        None \<Rightarrow> (Inr (RetState ENTERING_HOURS), ctx, [Reply BadHoursFormat None])
      | Some hours \<Rightarrow>
          if float_le hours 0 \<or> float_gt hours 24
          then (Inr (RetState ENTERING_HOURS), ctx, [Reply BadHoursRange None])
          else
            let ctx1 = ctx(''selected_hours'' \<mapsto> PFloat hours)
            in case ctx1 ''selected_project_name'' of
                 None \<Rightarrow> (Inl KeyError, ctx1, [])
               | Some name \<Rightarrow>
                   (Inr (RetState ENTERING_DESCRIPTION), ctx1,
                    [Reply (DescriptionPrompt name hours) (Some skip_keyboard)]))"

text \<open>
  The summary of the wizard shown above the date choice; it reads the project name and
  the hours with \<open>user_data[...]\<close> and the description with \<open>user_data.get\<close>.
\<close>

definition wizard_summary :: "user_data \<Rightarrow> py_error + msg" where
  "wizard_summary ctx =
     (case ctx ''selected_project_name'' of
        None \<Rightarrow> Inl KeyError
      | Some name \<Rightarrow>
          (case ctx ''selected_hours'' of
             None \<Rightarrow> Inl KeyError
           | Some hours \<Rightarrow> Inr (SelectDatePrompt name hours (ctx ''description''))))"

definition show_date_selection :: "env \<Rightarrow> source \<Rightarrow> user_data \<Rightarrow> result" where
  "show_date_selection env via ctx =
     (case wizard_summary ctx of
        Inl e \<Rightarrow> (Inl e, ctx, [])
      | Inr text \<Rightarrow>
          (Inr (RetState SELECTING_DATE), ctx,
           [render via text
              (Some [[Button (Caption ''today'') (''date_'' @ iso_date (current_date env))],
                     [Button (Caption ''yesterday'') (''date_'' @ iso_date (prev_day (current_date env)))],
                     [Button (Caption ''calendar'') ''date_custom'']])]))"

text \<open>
  \<open>handle_description_input\<close>: with the admin flag set the text is a new project's name,
  otherwise the description of the entry. \<open>skip_description\<close> stores \<open>None\<close>.
\<close>

definition handle_description_input :: "env \<Rightarrow> int \<Rightarrow> string \<Rightarrow> user_data \<Rightarrow> result" where
  "handle_description_input env user_id text0 ctx =
     (let text = strip text0
      in if ctx ''admin_action'' = Some (PStr ''add_project'')
         then
           if is_admin env user_id
           then
             if add_project env text
             then (case get_projects_keyboard (all_projects env) 0 5 of
                     Inl e \<Rightarrow> (Inl e, ctx, [Reply (ProjectCreated text) None])
                   | Inr kb \<Rightarrow>
                       (Inr RetEnd, Map.empty,
                        [Reply (ProjectCreated text) None, Reply ProjectsMenu (Some kb)]))
             else (Inr RetEnd, Map.empty, [Reply (ProjectExists text) None])
           else (Inr RetEnd, Map.empty, [])
         else show_date_selection env ViaMessage (ctx(''description'' \<mapsto> PStr text)))"

definition skip_description :: "env \<Rightarrow> user_data \<Rightarrow> result" where
  "skip_description env ctx = show_date_selection env ViaCallback (ctx(''description'' \<mapsto> PNone))"

text \<open>
  Saving the entry, shared by \<open>select_date\<close> and the \<open>cal_select\<close> branch of
  \<open>handle_calendar\<close>: the two fields are read with \<open>user_data[...]\<close>, the row is
  inserted, the confirmation is sent and \<open>user_data\<close> is cleared.
\<close>

definition description_of :: "user_data \<Rightarrow> pyval" where
  "description_of ctx = (case ctx ''description'' of None \<Rightarrow> PNone | Some v \<Rightarrow> v)"

definition save_entry :: "env \<Rightarrow> int \<Rightarrow> string \<Rightarrow> (py_error + string) \<Rightarrow> user_data \<Rightarrow> result" where
  "save_entry env user_id date_str formatted ctx =
     (case ctx ''selected_project_id'' of
        None \<Rightarrow> (Inl KeyError, ctx, [])
      | Some project_id \<Rightarrow>
          (case ctx ''selected_hours'' of
             None \<Rightarrow> (Inl KeyError, ctx, [])
           | Some hours \<Rightarrow>
               let description = description_of ctx
               in if \<not> add_time_entry env user_id project_id hours description date_str
                  then (Inl DatabaseError, ctx, [])
                  else
                    let saved = [Inserted user_id project_id hours description date_str]
                    in case formatted of
                         Inl e \<Rightarrow> (Inl e, ctx, saved)
                       | Inr formatted_date \<Rightarrow>
                           (case ctx ''selected_project_name'' of
                              None \<Rightarrow> (Inl KeyError, ctx, saved)
                            | Some name \<Rightarrow>
                                (Inr RetEnd, Map.empty,
                                 saved @
                                 [Answer None,
                                  Reply (EntryAdded name hours
                                           (if truthy description then Some description else None)
                                           formatted_date) None]))))"

text \<open>
  The month a navigation token leads to, and \<open>handle_calendar\<close>. The bounds of the
  navigation are the current year and the one before.
\<close>

definition nav_month :: "bool \<Rightarrow> int \<Rightarrow> int \<Rightarrow> int \<times> int" where
  "nav_month prev year month =
     (if prev
      then (if month - 1 = 0 then (year - 1, 12) else (year, month - 1))
      else (if month + 1 = 13 then (year + 1, 1) else (year, month + 1)))"

definition handle_calendar :: "env \<Rightarrow> int \<Rightarrow> string \<Rightarrow> user_data \<Rightarrow> result" where
  "handle_calendar env user_id data ctx =
     (if data = ''cal_ignore'' then (Inr RetNone, ctx, [Answer None])
      else if startswith data ''cal_prev_'' \<or> startswith data ''cal_next_''
      then
        let parts = split_on CHR ''_'' data
        in case int_field parts 2 of
             Inl e \<Rightarrow> (Inl e, ctx, [])
           | Inr year0 \<Rightarrow>
               (case int_field parts 3 of
                  Inl e \<Rightarrow> (Inl e, ctx, [])
                | Inr month0 \<Rightarrow>
                    let (year, month) = nav_month (startswith data ''cal_prev_'') year0 month0
                    in if year < fst (current_date env) - 1 \<or> year > fst (current_date env)
                       then (Inr RetNone, ctx, [Answer (Some UnavailablePeriod)])
                       else
                         (case generate_calendar year month (current_date env) of
                            Inl e \<Rightarrow> (Inl e, ctx, [])
                          | Inr calendar_markup \<Rightarrow>
                              (case wizard_summary ctx of
                                 Inl e \<Rightarrow> (Inl e, ctx, [])
                               | Inr text \<Rightarrow>
                                   (Inr (RetState SELECTING_DATE), ctx,
                                    [EditText text (Some calendar_markup)]))))
      else if startswith data ''cal_select_''
      then
        let parts = split_on CHR ''_'' data
        in case int_field parts 2 of
             Inl e \<Rightarrow> (Inl e, ctx, [])
           | Inr year \<Rightarrow>
               (case int_field parts 3 of
                  Inl e \<Rightarrow> (Inl e, ctx, [])
                | Inr month \<Rightarrow>
                    (case int_field parts 4 of
                       Inl e \<Rightarrow> (Inl e, ctx, [])
                     | Inr day \<Rightarrow>
                         save_entry env user_id
                           (str_int year @ ''-'' @ fmt02 month @ ''-'' @ fmt02 day)
                           (Inr (fmt02 day @ ''.'' @ fmt02 month @ ''.'' @ str_int year))
                           ctx))
      else (Inr RetNone, ctx, []))"

text \<open>
  \<open>select_date\<close>: the calendar for \<open>date_custom\<close>, otherwise the date of the token is
  saved; the display date is parsed from it after the insert.
\<close>

definition select_date :: "env \<Rightarrow> int \<Rightarrow> string \<Rightarrow> user_data \<Rightarrow> result" where
  "select_date env user_id data ctx =
     (if data = ''date_custom''
      then
        (case generate_calendar (fst (current_date env)) (fst (snd (current_date env))) (current_date env) of
           Inl e \<Rightarrow> (Inl e, ctx, [])
         | Inr calendar_markup \<Rightarrow>
             (case wizard_summary ctx of
                Inl e \<Rightarrow> (Inl e, ctx, [])
              | Inr text \<Rightarrow>
                  (Inr (RetState SELECTING_DATE), ctx, [EditText text (Some calendar_markup)])))
      else
        case after_first CHR ''_'' data of
          Inl e \<Rightarrow> (Inl e, ctx, [])
        | Inr date_str \<Rightarrow>
            save_entry env user_id date_str
              (case strptime date_str of Inl e \<Rightarrow> Inl e | Inr d \<Rightarrow> Inr (dmy_date d))
              ctx)"

text \<open>\<open>handle_date_input\<close> and \<open>back_to_main\<close>.\<close>

definition handle_date_input :: "user_data \<Rightarrow> result" where
  "handle_date_input ctx = (Inr (RetState SELECTING_DATE), ctx, [Reply UseDateButtons None])"

definition back_to_main :: "env \<Rightarrow> int \<Rightarrow> source \<Rightarrow> user_data \<Rightarrow> result" where
  "back_to_main env user_id via ctx =
     (Inr RetEnd, Map.empty,
      (case via of ViaCallback \<Rightarrow> [Answer None] | ViaMessage \<Rightarrow> []) @
      [ReplyMenu MainMenu (is_admin env user_id)])"

section \<open>Reports\<close>

text \<open>
  \<open>user_data.get(k)\<close> as a condition, and the user the reports are made for: the
  impersonated user when an admin has chosen one, else the acting user.
\<close>

definition truthy_get :: "user_data \<Rightarrow> string \<Rightarrow> bool" where
  "truthy_get ctx k = (case ctx k of None \<Rightarrow> False | Some v \<Rightarrow> truthy v)"

definition target_user :: "user_data \<Rightarrow> int \<Rightarrow> pyval" where
  "target_user ctx user_id =
     (case ctx ''admin_target_user_id'' of None \<Rightarrow> PInt user_id | Some v \<Rightarrow> v)"

definition reports_keyboard :: keyboard where
  "reports_keyboard =
     [[Button (Caption ''today'') ''report_today''],
      [Button (Caption ''week'') ''report_week''],
      [Button (Caption ''choose dates'') ''report_custom''],
      [Button (Caption ''by project'') ''report_projects''],
      [Button (Caption ''weekly summary'') ''report_weekly_summary''],
      [Button (Caption ''productivity'') ''report_productivity''],
      [Button (Caption ''export CSV'') ''export_csv'']]"

definition show_reports_menu :: "source \<Rightarrow> user_data \<Rightarrow> result" where
  "show_reports_menu via ctx = (Inr RetNone, ctx, [render via ReportsMenu (Some reports_keyboard)])"

text \<open>\<open>show_user_reports_menu\<close>: the admin's choice of a user is stored first.\<close>

definition show_user_reports_menu :: "source \<Rightarrow> int \<Rightarrow> user_data \<Rightarrow> result" where
  "show_user_reports_menu via target ctx =
     (Inr RetNone, ctx(''admin_target_user_id'' \<mapsto> PInt target),
      [render via (UserReportsMenu target)
         (Some (reports_keyboard @
                [[Button (Caption ''to the user'') (''admin_user_'' @ str_int target)]]))])"

definition show_custom_date_selection :: "env \<Rightarrow> user_data \<Rightarrow> result" where
  "show_custom_date_selection env ctx =
     (case generate_report_calendar (fst (current_date env)) (fst (snd (current_date env))) of
        Inl e \<Rightarrow> (Inl e, ctx, [])
      | Inr calendar_markup \<Rightarrow> (Inr RetNone, ctx, [EditText ReportStartPrompt (Some calendar_markup)]))"

text \<open>\<open>handle_report\<close>: the report of the kind the token names, for the target user.\<close>

definition send_report :: "env \<Rightarrow> report_kind \<Rightarrow> pyval \<Rightarrow> user_data \<Rightarrow> result" where
  "send_report env kind target ctx =
     (case report env kind target of
        None \<Rightarrow> (Inl DatabaseError, ctx, [])
      | Some report_text \<Rightarrow> (Inr RetNone, ctx, [Answer None, Reply (ReportText report_text) None]))"

definition handle_report :: "env \<Rightarrow> int \<Rightarrow> string \<Rightarrow> user_data \<Rightarrow> result" where
  "handle_report env user_id data ctx =
     (let parts = split_on CHR ''_'' data
      in case py_index parts 1 of
           Inl e \<Rightarrow> (Inl e, ctx, [])
         | Inr report_type \<Rightarrow>
             let target_user_id = target_user ctx user_id
             in if report_type = ''today'' then send_report env Today target_user_id ctx
                else if report_type = ''week'' then send_report env Week target_user_id ctx
                else if report_type = ''projects'' then send_report env Projects target_user_id ctx
                else if report_type = ''weekly''
                then (if length parts > 2 \<and> parts ! 2 = ''summary''
                      then send_report env WeeklySummary target_user_id ctx
                      else send_report env Week target_user_id ctx)
                else if report_type = ''custom'' then show_custom_date_selection env ctx
                else if report_type = ''productivity''
                then send_report env Productivity target_user_id ctx
                else (Inr RetNone, ctx, [Answer None, Reply UnknownReport None]))"

text \<open>\<open>export_user_csv\<close> catches every exception of the export.\<close>

definition export_user_csv :: "env \<Rightarrow> int \<Rightarrow> user_data \<Rightarrow> result" where
  "export_user_csv env user_id ctx =
     (let target_user_id = target_user ctx user_id
      in case export_to_csv env target_user_id of
           None \<Rightarrow> (Inr RetNone, ctx, [Answer (Some CsvError)])
         | Some csv_data \<Rightarrow>
             (Inr RetNone, ctx,
              [SendDocument target_user_id csv_data (target_user_id = PInt user_id),
               Answer (Some CsvSent)]))"

text \<open>
  \<open>handle_report_calendar\<close>. Navigation is bounded by two years back and one year
  ahead. The first selected date is stored as the start of the range; the second is
  checked against it, and the report is sent for the range.
\<close>

definition handle_report_calendar :: "env \<Rightarrow> int \<Rightarrow> string \<Rightarrow> user_data \<Rightarrow> result" where
  "handle_report_calendar env user_id data ctx =
     (if data = ''report_cal_ignore'' then (Inr RetNone, ctx, [Answer None])
      else if startswith data ''report_cal_prev_'' \<or> startswith data ''report_cal_next_''
      then
        let parts = split_on CHR ''_'' data
        in case int_field parts 3 of
             Inl e \<Rightarrow> (Inl e, ctx, [])
           | Inr year0 \<Rightarrow>
               (case int_field parts 4 of
                  Inl e \<Rightarrow> (Inl e, ctx, [])
                | Inr month0 \<Rightarrow>
                    let (year, month) = nav_month (startswith data ''report_cal_prev_'') year0 month0
                    in if year < fst (current_date env) - 2 \<or> year > fst (current_date env) + 1
                       then (Inr RetNone, ctx, [Answer (Some UnavailablePeriod)])
                       else
                         (case generate_report_calendar year month of
                            Inl e \<Rightarrow> (Inl e, ctx, [])
                          | Inr calendar_markup \<Rightarrow>
                              if truthy_get ctx ''report_start_date''
                              then (Inr RetNone, ctx,
                                    [EditText (ReportEndPrompt (the (ctx ''report_start_date'')))
                                       (Some calendar_markup)])
                              else (Inr RetNone, ctx,
                                    [EditText ReportStartPrompt (Some calendar_markup)])))
      else if startswith data ''report_cal_select_''
      then
        let parts = split_on CHR ''_'' data
        in case int_field parts 3 of
             Inl e \<Rightarrow> (Inl e, ctx, [])
           | Inr year \<Rightarrow>
               (case int_field parts 4 of
                  Inl e \<Rightarrow> (Inl e, ctx, [])
                | Inr month \<Rightarrow>
                    (case int_field parts 5 of
                       Inl e \<Rightarrow> (Inl e, ctx, [])
                     | Inr day \<Rightarrow>
                         let date_str = str_int year @ ''-'' @ fmt02 month @ ''-'' @ fmt02 day;
                             formatted_date = fmt02 day @ ''.'' @ fmt02 month @ ''.'' @ str_int year
                         in if \<not> truthy_get ctx ''report_start_date''
                            then
                              let ctx1 = ctx(''report_start_date'' \<mapsto> PStr date_str,
                                             ''report_start_date_formatted'' \<mapsto> PStr formatted_date)
                              in (case generate_report_calendar year month of
                                    Inl e \<Rightarrow> (Inl e, ctx1, [])
                                  | Inr calendar_markup \<Rightarrow>
                                      (Inr RetNone, ctx1,
                                       [EditText (ReportEndPrompt (PStr formatted_date))
                                          (Some calendar_markup)]))
                            else
                              (case ctx ''report_start_date_formatted'' of
                                 None \<Rightarrow> (Inl KeyError, ctx, [])
                               | Some start_date_formatted \<Rightarrow>
                                   (case ctx ''report_start_date'' of
                                      Some (PStr start_date) \<Rightarrow>
                                        (case strptime start_date of
                                           Inl e \<Rightarrow> (Inr RetNone, ctx, [Answer (Some DateError)])
                                         | Inr start_obj \<Rightarrow>
                                             (case strptime date_str of
                                                Inl e \<Rightarrow> (Inr RetNone, ctx, [Answer (Some DateError)])
                                              | Inr end_obj \<Rightarrow>
                                                  if date_lt end_obj start_obj
                                                  then (Inr RetNone, ctx, [Answer (Some EndBeforeStart)])
                                                  else if toordinal end_obj - toordinal start_obj > 365
                                                  then (Inr RetNone, ctx, [Answer (Some PeriodTooLong)])
                                                  else
                                                    (case custom_period_report env
                                                            (target_user ctx user_id) start_date date_str of
                                                       None \<Rightarrow> (Inl DatabaseError, ctx, [])
                                                     | Some report_text \<Rightarrow>
                                                         (Inr RetNone,
                                                          ctx(''report_start_date'' := None,
                                                              ''report_start_date_formatted'' := None),
                                                          [Answer None,
                                                           Reply (ReportText report_text) None]))))
                                    | _ \<Rightarrow> (Inl TypeError, ctx, [])))))
      else (Inr RetNone, ctx, []))"

section \<open>Routing of button presses and menu texts\<close>

text \<open>\<open>handle_entries_pagination\<close> and \<open>show_my_entries\<close>: the page of the token, or page 0.\<close>

definition entries_page :: "env \<Rightarrow> int \<Rightarrow> source \<Rightarrow> int \<Rightarrow> user_data \<Rightarrow> result" where
  "entries_page env user_id via page ctx =
     (case show_my_entries_page via (user_rows env user_id) page of
        Inl e \<Rightarrow> (Inl e, ctx, [])
      | Inr acts \<Rightarrow> (Inr RetNone, ctx, acts))"

definition handle_entries_pagination :: "env \<Rightarrow> int \<Rightarrow> string \<Rightarrow> user_data \<Rightarrow> result" where
  "handle_entries_pagination env user_id data ctx =
     (case int_field (split_on CHR ''_'' data) 2 of
        Inl e \<Rightarrow> (Inl e, ctx, [])
      | Inr page \<Rightarrow> entries_page env user_id ViaCallback page ctx)"

definition show_my_entries :: "env \<Rightarrow> int \<Rightarrow> source \<Rightarrow> user_data \<Rightarrow> result" where
  "show_my_entries env user_id via ctx = entries_page env user_id via 0 ctx"

definition show_help :: "source \<Rightarrow> user_data \<Rightarrow> result" where
  "show_help via ctx =
     (Inr RetNone, ctx,
      (case via of ViaCallback \<Rightarrow> [Answer None] | ViaMessage \<Rightarrow> []) @ [Reply HelpText None])"

definition show_admin_menu :: "env \<Rightarrow> int \<Rightarrow> source \<Rightarrow> user_data \<Rightarrow> result" where
  "show_admin_menu env user_id via ctx =
     (if \<not> is_admin env user_id
      then (Inr RetNone, ctx,
            [case via of ViaCallback \<Rightarrow> Answer (Some AccessDenied)
                       | ViaMessage \<Rightarrow> Reply AccessDenied None])
      else (Inr RetNone, ctx, [render via AdminPanel None]))"

text \<open>
  The handlers of the delete flows and the admin screens. Each reads its integer
  arguments with \<open>int(query.data.split("_")[k])\<close> before anything else, with no
  \<open>try\<close> around it; the rest is \<open>screen\<close> of the environment.
\<close>

definition other_handler :: "env \<Rightarrow> string \<Rightarrow> int \<Rightarrow> int list \<Rightarrow> user_data \<Rightarrow> result" where
  "other_handler env name user_id args ctx =
     (case screen env name user_id args of
        (None, acts) \<Rightarrow> (Inr RetNone, ctx, acts)
      | (Some e, acts) \<Rightarrow> (Inl e, ctx, acts))"

definition parse_then ::
  "env \<Rightarrow> string \<Rightarrow> int \<Rightarrow> string list \<Rightarrow> nat list \<Rightarrow> user_data \<Rightarrow> result" where
  "parse_then env name user_id parts ks ctx =
     (case int_fields parts ks of
        Inl e \<Rightarrow> (Inl e, ctx, [])
      | Inr args \<Rightarrow> other_handler env name user_id args ctx)"

definition show_delete_menu :: "env \<Rightarrow> int \<Rightarrow> user_data \<Rightarrow> result" where
  "show_delete_menu env user_id ctx = other_handler env ''show_delete_menu'' user_id [] ctx"

definition confirm_delete_entry :: "env \<Rightarrow> int \<Rightarrow> string \<Rightarrow> user_data \<Rightarrow> result" where
  "confirm_delete_entry env user_id data ctx =
     parse_then env ''confirm_delete_entry'' user_id (split_on CHR ''_'' data) [2] ctx"

definition delete_entry :: "env \<Rightarrow> int \<Rightarrow> string \<Rightarrow> user_data \<Rightarrow> result" where
  "delete_entry env user_id data ctx =
     parse_then env ''delete_entry'' user_id (split_on CHR ''_'' data) [2] ctx"

definition show_delete_entries_from_page :: "env \<Rightarrow> int \<Rightarrow> string \<Rightarrow> user_data \<Rightarrow> result" where
  "show_delete_entries_from_page env user_id data ctx =
     parse_then env ''show_delete_entries_from_page'' user_id (split_on CHR ''_'' data) [3] ctx"

definition confirm_delete_entry_from_page :: "env \<Rightarrow> int \<Rightarrow> string \<Rightarrow> user_data \<Rightarrow> result" where
  "confirm_delete_entry_from_page env user_id data ctx =
     parse_then env ''confirm_delete_entry_from_page'' user_id (split_on CHR ''_'' data) [4, 5] ctx"

definition delete_entry_from_page :: "env \<Rightarrow> int \<Rightarrow> string \<Rightarrow> user_data \<Rightarrow> result" where
  "delete_entry_from_page env user_id data ctx =
     parse_then env ''delete_entry_from_page'' user_id (split_on CHR ''_'' data) [4, 5] ctx"

text \<open>
  \<open>confirm_delete_project\<close> and \<open>confirm_ban_user\<close> read the id from the token unless
  \<open>handle_admin\<close> passes it; \<open>confirm_ban_user\<close> is only called by \<open>handle_admin\<close>.
\<close>

definition confirm_delete_project ::
  "env \<Rightarrow> int \<Rightarrow> string \<Rightarrow> int option \<Rightarrow> user_data \<Rightarrow> result" where
  "confirm_delete_project env user_id data project_id ctx =
     (case project_id of
        None \<Rightarrow> parse_then env ''confirm_delete_project'' user_id (split_on CHR ''_'' data) [3] ctx
      | Some i \<Rightarrow> other_handler env ''confirm_delete_project'' user_id [i] ctx)"

definition confirm_ban_user ::
  "env \<Rightarrow> int \<Rightarrow> string \<Rightarrow> int option \<Rightarrow> user_data \<Rightarrow> result" where
  "confirm_ban_user env admin_id data user_id ctx =
     (case user_id of
        None \<Rightarrow> parse_then env ''confirm_ban_user'' admin_id (split_on CHR ''_'' data) [2] ctx
      | Some i \<Rightarrow> other_handler env ''confirm_ban_user'' admin_id [i] ctx)"

definition delete_project :: "env \<Rightarrow> int \<Rightarrow> string \<Rightarrow> user_data \<Rightarrow> result" where
  "delete_project env user_id data ctx =
     parse_then env ''delete_project'' user_id (split_on CHR ''_'' data) [3] ctx"

text \<open>
  \<open>handle_admin\<close>. \<open>action\<close> is the token without its first field. The branches are
  tested in the order of the source. Those that open a user's reports store the chosen
  user, and \<open>add_project\<close> sets the flag for the project name and returns
  \<open>ENTERING_DESCRIPTION\<close>. The branch of a project's detail is the only one that looks at
  its argument (\<open>isdigit\<close>) before \<open>int\<close>.
\<close>

definition admin_projects :: "env \<Rightarrow> int \<Rightarrow> user_data \<Rightarrow> result" where
  "admin_projects env page ctx =
     (case get_projects_keyboard (all_projects env) page 5 of
        Inl e \<Rightarrow> (Inl e, ctx, [])
      | Inr reply_markup \<Rightarrow> (Inr RetNone, ctx, [EditText ProjectsMenu (Some reply_markup)]))"

definition handle_admin :: "env \<Rightarrow> int \<Rightarrow> string \<Rightarrow> user_data \<Rightarrow> result" where
  "handle_admin env user_id data ctx =
     (if \<not> is_admin env user_id then (Inr RetNone, ctx, [Answer (Some AccessDenied)])
      else
        let action_parts = split_on CHR ''_'' data;
            action = py_join ''_'' (drop 1 action_parts);
            parts = split_on CHR ''_'' action
        in if action = ''users'' then other_handler env ''users'' user_id [] ctx
           else if action = ''projects'' then admin_projects env 0 ctx
           else if startswith action ''projects_page_''
           then (case int_field parts 2 of
                   Inl e \<Rightarrow> (Inl e, ctx, [])
                 | Inr page \<Rightarrow> admin_projects env page ctx)
           else if action = ''stats'' then other_handler env ''stats'' user_id [] ctx
           else if startswith action ''user_stats_''
           then (case int_field parts 2 of
                   Inl e \<Rightarrow> (Inl e, ctx, [])
                 | Inr target_user_id \<Rightarrow> show_user_reports_menu ViaCallback target_user_id ctx)
           else if startswith action ''user_reports_''
           then (case int_field parts 2 of
                   Inl e \<Rightarrow> (Inl e, ctx, [])
                 | Inr target_user_id \<Rightarrow> show_user_reports_menu ViaCallback target_user_id ctx)
           else if startswith action ''user_''
           then parse_then env ''user'' user_id parts [1] ctx
           else if startswith action ''project_stats_''
           then parse_then env ''project_stats'' user_id parts [2] ctx
           else if startswith action ''project_'' \<and>
                   (case py_index parts 1 of Inl e \<Rightarrow> False | Inr s \<Rightarrow> isdigit s)
           then parse_then env ''project'' user_id parts [1] ctx
           else if startswith action ''toggle_user_''
           then parse_then env ''toggle_user'' user_id parts [2] ctx
           else if startswith action ''ban_user_''
           then (case int_field parts 2 of
                   Inl e \<Rightarrow> (Inl e, ctx, [])
                 | Inr target_user_id \<Rightarrow> confirm_ban_user env user_id data (Some target_user_id) ctx)
           else if startswith action ''confirm_ban_user_''
           then parse_then env ''ban_user'' user_id parts [3] ctx
           else if startswith action ''unban_user_''
           then parse_then env ''unban_user'' user_id parts [2] ctx
           else if startswith action ''toggle_project_''
           then parse_then env ''toggle_project'' user_id parts [2] ctx
           else if startswith action ''delete_project_''
           then (case int_field parts 2 of
                   Inl e \<Rightarrow> (Inl e, ctx, [])
                 | Inr project_id \<Rightarrow> confirm_delete_project env user_id data (Some project_id) ctx)
           else if action = ''add_project''
           then (Inr (RetState ENTERING_DESCRIPTION),
                 ctx(''admin_action'' \<mapsto> PStr ''add_project''),
                 [EditText EnterProjectName None])
           else if action = ''basic_stats'' then other_handler env ''basic_stats'' user_id [] ctx
           else if action = ''team_efficiency''
           then other_handler env ''team_efficiency'' user_id [] ctx
           else if action = ''project_health''
           then other_handler env ''project_health'' user_id [] ctx
           else if action = ''team_weekly'' then other_handler env ''team_weekly'' user_id [] ctx
           else (Inr RetNone, ctx, [Answer (Some UnknownAction)]))"

text \<open>
  \<open>button_handler\<close>: a banned user is told so unless the token starts with \<open>admin_\<close>;
  otherwise the query is answered and the token is routed by the first matching test.
\<close>

definition route_button :: "env \<Rightarrow> int \<Rightarrow> string \<Rightarrow> user_data \<Rightarrow> result" where
  "route_button env user_id data ctx =
     (if data = ''add_hours'' then start_add_hours env user_id ViaCallback ctx
      else if data = ''my_entries'' then show_my_entries env user_id ViaCallback ctx
      else if data = ''reports'' then show_reports_menu ViaCallback ctx
      else if data = ''help'' then show_help ViaCallback ctx
      else if data = ''admin_menu'' then show_admin_menu env user_id ViaCallback ctx
      else if startswith data ''report_cal_'' then handle_report_calendar env user_id data ctx
      else if startswith data ''report_'' then handle_report env user_id data ctx
      else if startswith data ''admin_'' then handle_admin env user_id data ctx
      else if data = ''export_csv'' then export_user_csv env user_id ctx
      else if startswith data ''project_'' then select_project env data ctx
      else if startswith data ''hours_'' then select_hours env data ctx
      else if startswith data ''date_'' then select_date env user_id data ctx
      else if data = ''skip_description'' then skip_description env ctx
      else if data = ''back_to_main'' then back_to_main env user_id ViaCallback ctx
      else if startswith data ''delete_entry_from_page_''
      then confirm_delete_entry_from_page env user_id data ctx
      else if startswith data ''confirm_delete_from_page_''
      then delete_entry_from_page env user_id data ctx
      else if startswith data ''delete_entry_'' then confirm_delete_entry env user_id data ctx
      else if startswith data ''confirm_delete_'' then delete_entry env user_id data ctx
      else if data = ''delete_menu'' then show_delete_menu env user_id ctx
      else if startswith data ''entries_page_'' then handle_entries_pagination env user_id data ctx
      else if startswith data ''delete_entries_page_''
      then show_delete_entries_from_page env user_id data ctx
      else if startswith data ''confirm_delete_project_''
      then confirm_delete_project env user_id data None ctx
      else if startswith data ''final_delete_project_'' then delete_project env user_id data ctx
      else if startswith data ''cal_'' then handle_calendar env user_id data ctx
      else (Inr RetNone, ctx, []))"

definition button_handler :: "env \<Rightarrow> int \<Rightarrow> string \<Rightarrow> user_data \<Rightarrow> result" where
  "button_handler env user_id data ctx =
     (if \<not> startswith data ''admin_'' \<and> is_banned env user_id
      then (Inr RetNone, ctx, [Answer (Some BannedShort), EditText Banned None])
      else
        case route_button env user_id data ctx of
          (out, ctx', acts) \<Rightarrow> (out, ctx', Answer None # acts))"

text \<open>The captions of the reply keyboard, as the UTF-8 bytes of the source's literals.\<close>

definition add_hours_text :: string where
  "add_hours_text =
    [CHR 0xE2, CHR 0x9E, CHR 0x95, CHR 0x20, CHR 0xD0, CHR 0x94, CHR 0xD0, CHR 0xBE,
     CHR 0xD0, CHR 0xB1, CHR 0xD0, CHR 0xB0, CHR 0xD0, CHR 0xB2, CHR 0xD0, CHR 0xB8,
     CHR 0xD1, CHR 0x82, CHR 0xD1, CHR 0x8C, CHR 0x20, CHR 0xD1, CHR 0x87, CHR 0xD0,
     CHR 0xB0, CHR 0xD1, CHR 0x81, CHR 0xD1, CHR 0x8B]"

definition my_entries_text :: string where
  "my_entries_text =
    [CHR 0xF0, CHR 0x9F, CHR 0x93, CHR 0x8A, CHR 0x20, CHR 0xD0, CHR 0x9C, CHR 0xD0,
     CHR 0xBE, CHR 0xD0, CHR 0xB8, CHR 0x20, CHR 0xD0, CHR 0xB7, CHR 0xD0, CHR 0xB0,
     CHR 0xD0, CHR 0xBF, CHR 0xD0, CHR 0xB8, CHR 0xD1, CHR 0x81, CHR 0xD0, CHR 0xB8]"

definition reports_text :: string where
  "reports_text =
    [CHR 0xF0, CHR 0x9F, CHR 0x93, CHR 0x88, CHR 0x20, CHR 0xD0, CHR 0x9E, CHR 0xD1,
     CHR 0x82, CHR 0xD1, CHR 0x87, CHR 0xD0, CHR 0xB5, CHR 0xD1, CHR 0x82, CHR 0xD1,
     CHR 0x8B]"

definition help_text :: string where
  "help_text =
    [CHR 0xE2, CHR 0x84, CHR 0xB9, CHR 0xEF, CHR 0xB8, CHR 0x8F, CHR 0x20, CHR 0xD0,
     CHR 0x9F, CHR 0xD0, CHR 0xBE, CHR 0xD0, CHR 0xBC, CHR 0xD0, CHR 0xBE, CHR 0xD1,
     CHR 0x89, CHR 0xD1, CHR 0x8C]"

definition delete_text :: string where
  "delete_text =
    [CHR 0xF0, CHR 0x9F, CHR 0x97, CHR 0x91, CHR 0x20, CHR 0xD0, CHR 0xA3, CHR 0xD0,
     CHR 0xB4, CHR 0xD0, CHR 0xB0, CHR 0xD0, CHR 0xBB, CHR 0xD0, CHR 0xB8, CHR 0xD1,
     CHR 0x82, CHR 0xD1, CHR 0x8C, CHR 0x20, CHR 0xD0, CHR 0xB7, CHR 0xD0, CHR 0xB0,
     CHR 0xD0, CHR 0xBF, CHR 0xD0, CHR 0xB8, CHR 0xD1, CHR 0x81, CHR 0xD0, CHR 0xB8]"

definition admin_text :: string where
  "admin_text =
    [CHR 0xF0, CHR 0x9F, CHR 0x91, CHR 0x91, CHR 0x20, CHR 0xD0, CHR 0x90, CHR 0xD0,
     CHR 0xB4, CHR 0xD0, CHR 0xBC, CHR 0xD0, CHR 0xB8, CHR 0xD0, CHR 0xBD]"

text \<open>\<open>handle_text_message\<close>: the texts of the reply keyboard.\<close>

definition handle_text_message :: "env \<Rightarrow> int \<Rightarrow> string \<Rightarrow> user_data \<Rightarrow> result" where
  "handle_text_message env user_id text ctx =
     (if is_banned env user_id then (Inr RetNone, ctx, [Reply Banned None])
      else if ctx ''admin_action'' = Some (PStr ''add_project'')
      then handle_description_input env user_id text ctx
      else if text = add_hours_text then start_add_hours env user_id ViaMessage ctx
      else if text = my_entries_text then show_my_entries env user_id ViaMessage ctx
      else if text = reports_text then show_reports_menu ViaMessage ctx
      else if text = help_text then show_help ViaMessage ctx
      else if text = delete_text then show_delete_menu env user_id ctx
      else if text = admin_text
      then (if is_admin env user_id then show_admin_menu env user_id ViaMessage ctx
            else (Inr RetNone, ctx, [Reply AccessDenied None]))
      else (Inr RetNone, ctx, [Reply UnknownCommand None]))"

section \<open>The conversation\<close>

text \<open>
  What reaches the bot: a pressed inline button with its token, a text that is not a
  command, or a command. The handlers are registered in \<open>main\<close> in one group, so an
  update goes to the first that accepts it: the commands \<open>/start\<close> and \<open>/help\<close>, then the
  ConversationHandler, then \<open>button_handler\<close> for every button, then
  \<open>handle_text_message\<close> for every text.

  The ConversationHandler of python-telegram-bot keeps one state per user and chat,
  absent outside a conversation. Outside one it offers the update to its entry
  points; inside, to the handlers of the current state in their order and then to the
  fallbacks. A pattern is matched with \<open>re.match\<close>: \<open>^p\<close> accepts the tokens that start
  with \<open>p\<close>, and \<open>^p$\<close> accepts \<open>p\<close> and \<open>p\<close> followed by a newline. When the handler returns
  \<open>None\<close> or raises, the state stays; \<open>END\<close> ends the conversation; another value is the
  new state.
\<close>

datatype event = Callback string | Text string | Command string

definition re_whole :: "string \<Rightarrow> string \<Rightarrow> bool" where
  "re_whole p s = (s = p \<or> s = p @ [CHR 0x0A])"

definition fallbacks :: "env \<Rightarrow> int \<Rightarrow> event \<Rightarrow> user_data \<Rightarrow> result option" where
  "fallbacks env user_id ev ctx =
     (case ev of
        Callback data \<Rightarrow>
          if re_whole ''back_to_main'' data then Some (back_to_main env user_id ViaCallback ctx)
          else None
      | _ \<Rightarrow> None)"

definition add_hours_handler ::
  "env \<Rightarrow> int \<Rightarrow> conv_state option \<Rightarrow> event \<Rightarrow> user_data \<Rightarrow> result option" where
  "add_hours_handler env user_id conv ev ctx =
     (case conv of
        None \<Rightarrow>
          (case ev of
             Callback data \<Rightarrow>
               if re_whole ''add_hours'' data then Some (start_add_hours env user_id ViaCallback ctx)
               else None
           | Text text \<Rightarrow>
               if re_whole add_hours_text text then Some (start_add_hours env user_id ViaMessage ctx)
               else None
           | Command c \<Rightarrow> None)
      | Some SELECTING_PROJECT \<Rightarrow>
          (case ev of
             Callback data \<Rightarrow>
               if startswith data ''project_'' then Some (select_project env data ctx)
               else fallbacks env user_id ev ctx
           | _ \<Rightarrow> fallbacks env user_id ev ctx)
      | Some ENTERING_HOURS \<Rightarrow>
          (case ev of
             Callback data \<Rightarrow>
               if startswith data ''hours_'' then Some (select_hours env data ctx)
               else fallbacks env user_id ev ctx
           | Text text \<Rightarrow> Some (handle_hours_input env text ctx)
           | Command c \<Rightarrow> fallbacks env user_id ev ctx)
      | Some ENTERING_DESCRIPTION \<Rightarrow>
          (case ev of
             Callback data \<Rightarrow>
               if re_whole ''skip_description'' data then Some (skip_description env ctx)
               else fallbacks env user_id ev ctx
           | Text text \<Rightarrow> Some (handle_description_input env user_id text ctx)
           | Command c \<Rightarrow> fallbacks env user_id ev ctx)
      | Some SELECTING_DATE \<Rightarrow>
          (case ev of
             Callback data \<Rightarrow>
               if startswith data ''date_'' then Some (select_date env user_id data ctx)
               else if startswith data ''cal_'' then Some (handle_calendar env user_id data ctx)
               else fallbacks env user_id ev ctx
           | Text text \<Rightarrow> Some (handle_date_input ctx)
           | Command c \<Rightarrow> fallbacks env user_id ev ctx))"

text \<open>
  The state of the conversation after a handler of the ConversationHandler has run.
\<close>

fun next_conv :: "conv_state option \<Rightarrow> py_error + ret \<Rightarrow> conv_state option" where
  "next_conv conv (Inl e) = conv"
| "next_conv conv (Inr RetNone) = conv"
| "next_conv conv (Inr RetEnd) = None"
| "next_conv conv (Inr (RetState s)) = Some s"

text \<open>
  One update for one user: the session is the conversation state and \<open>user_data\<close>. The
  command handlers \<open>start\<close> and \<open>show_help\<close> touch neither.
\<close>

type_synonym session = "conv_state option \<times> user_data"

definition process_update :: "env \<Rightarrow> int \<Rightarrow> session \<Rightarrow> event \<Rightarrow> session" where
  "process_update env user_id s ev =
     (case ev of
        Command c \<Rightarrow> s
      | _ \<Rightarrow>
          (case add_hours_handler env user_id (fst s) ev (snd s) of
             Some (out, ctx', acts) \<Rightarrow> (next_conv (fst s) out, ctx')
           | None \<Rightarrow>
               (case ev of
                  Callback data \<Rightarrow> (fst s, fst (snd (button_handler env user_id data (snd s))))
                | Text text \<Rightarrow> (fst s, fst (snd (handle_text_message env user_id text (snd s))))
                | Command c \<Rightarrow> s)))"

text \<open>
  A run of the bot for one user from the start of the process: the environment may
  differ at every update.
\<close>

fun run :: "int \<Rightarrow> session \<Rightarrow> (env \<times> event) list \<Rightarrow> session" where
  "run user_id s [] = s"
| "run user_id s ((env, ev) # rest) = run user_id (process_update env user_id s ev) rest"

section \<open>A sample environment\<close>

text \<open>
  The environment of the concrete instances below: the clock shows 2024-06-15, user 13
  is banned, user 1 is an admin, there are two active projects, every insert succeeds
  and every report returns; the delete flows and the admin screens render \<open>Other\<close> with
  their name and do not raise. \<open>float_of\<close> agrees with Python's \<open>float\<close> on the strings it
  lists (\<open>float('nan')\<close> is NaN, \<open>float('abc')\<close> raises ValueError); it is only applied to
  them.
\<close>

definition sample_env :: env where
  "sample_env =
     \<lparr>current_date = (2024, 6, 15),
      is_banned = (\<lambda>u. u = 13),
      is_admin = (\<lambda>u. u = 1),
      get_projects = [(1, ''dev''), (2, ''qa'')],
      project_name = (\<lambda>i. if i = 1 then Some ''dev'' else if i = 2 then Some ''qa'' else None),
      add_time_entry = (\<lambda>u p h d s. True),
      add_project = (\<lambda>n. True),
      all_projects = [(1, ''dev'', True, 0), (2, ''qa'', True, 0)],
      user_rows = (\<lambda>u. []),
      report = (\<lambda>k u. Some ''report''),
      custom_period_report = (\<lambda>u s e. Some (s @ ''..'' @ e)),
      export_to_csv = (\<lambda>u. Some ''csv''),
      float_of = (\<lambda>s. if s = ''1.5'' then Some (Fin (3 / 2))
                     else if s = ''2'' then Some (Fin 2)
                     else if s = ''24'' then Some (Fin 24)
                     else if s = ''25'' then Some (Fin 25)
                     else if s = ''0'' then Some (Fin 0)
                     else if s = ''nan'' then Some NaN
                     else None),
      screen = (\<lambda>name u args. (None, [Other name]))\<rparr>"

text \<open>
  The same environment with a database that refuses every insert, and the \<open>user_data\<close>
  of a wizard at the date step: project 1, two hours, the description skipped.
\<close>

definition failing_env :: env where
  "failing_env = sample_env\<lparr>add_time_entry := (\<lambda>u p h d s. False)\<rparr>"

definition sample_wizard :: user_data where
  "sample_wizard =
     [''selected_project_id'' \<mapsto> PInt 1, ''selected_project_name'' \<mapsto> PStr ''dev'',
      ''selected_hours'' \<mapsto> PFloat (Fin 2), ''description'' \<mapsto> PNone]"

section \<open>Properties\<close>

lemma neg_div_shift:
  fixes n p :: int
  assumes "0 < n" "0 < p"
  shows "(n - 1) div p + 1 = - ((- n) div p)"
proof -
  define q where "q = (n - 1) div p"
  define r where "r = (n - 1) mod p"
  have r: "0 \<le> r" "r < p" using assms by (simp_all add: r_def)
  have n: "n - 1 = p * q + r" by (simp add: q_def r_def)
  have "- n = p * (- (q + 1)) + (p - 1 - r)" using n by (simp add: algebra_simps)
  moreover have "0 \<le> p - 1 - r" "p - 1 - r < p" using r by simp_all
  ultimately have "(- n) div p = - (q + 1)" by (rule int_div_pos_eq)
  then show ?thesis by (simp add: q_def)
qed

lemma ceiling_pages:
  fixes n p :: int
  assumes "0 < n" "0 < p"
  shows "(n - 1) div p + 1 = \<lceil>real_of_int n / real_of_int p\<rceil>"
  using neg_div_shift [OF assms] by (simp add: ceiling_divide_eq_div)

lemma total_pages_ceiling:
  assumes "0 < page_size"
  shows "total_pages n page_size = Inr (max 1 \<lceil>real n / real_of_int page_size\<rceil>)"
proof (cases "n = 0")
  case True
  then show ?thesis by (simp add: total_pages_def)
next
  case False
  then have pos: "0 < int n" by simp
  have c: "(int n - 1) div page_size + 1 = \<lceil>real_of_int (int n) / real_of_int page_size\<rceil>"
    using ceiling_pages [OF pos assms] .
  have "1 \<le> \<lceil>real_of_int (int n) / real_of_int page_size\<rceil>"
    using pos assms by (simp add: le_ceiling_iff)
  then show ?thesis using False assms c by (simp add: total_pages_def max_def)
qed

lemma entries_pages_ceiling:
  "(int n + 5 - 1) div 5 = \<lceil>real n / 5\<rceil>"
proof -
  have "\<lceil>real_of_int (int n) / real_of_int 5\<rceil> = - ((- int n) div 5)"
    by (rule ceiling_divide_eq_div)
  moreover have "- ((- int n) div 5) = (int n + 5 - 1) div 5" by presburger
  ultimately show ?thesis by simp
qed

lemma py_slice_nonneg:
  assumes "0 \<le> i" "0 \<le> k"
  shows "py_slice xs i (i + k) = take (nat k) (drop (nat i) xs)"
proof -
  let ?n = "int (length xs)"
  have a: "py_clip ?n i = min (nat i) (length xs)"
    using assms unfolding py_clip_def min_def by (auto simp: nat_le_iff)
  have b: "py_clip ?n (i + k) = min (nat i + nat k) (length xs)"
    using assms unfolding py_clip_def min_def by (auto simp: nat_le_iff nat_add_distrib)
  have "take (min (nat i + nat k) (length xs) - min (nat i) (length xs))
          (drop (min (nat i) (length xs)) xs)
        = take (nat k) (drop (nat i) xs)"
  proof (cases "nat i \<le> length xs")
    case True
    then have m: "min (nat i) (length xs) = nat i" by simp
    show ?thesis
    proof (cases "nat i + nat k \<le> length xs")
      case True
      then show ?thesis using m by (simp add: min_def)
    next
      case False
      then have "min (nat i + nat k) (length xs) = length xs" by simp
      then show ?thesis using m False by simp
    qed
  next
    case False
    then show ?thesis by simp
  qed
  then show ?thesis by (simp add: py_slice_def Let_def a b)
qed

lemma page_rows_nonempty:
  assumes "0 \<le> page" "nat (page * 5) < length rows"
  shows "get_user_entries_paginated rows 5 (page * 5) = Inr (take 5 (drop (nat (page * 5)) rows))"
    and "take 5 (drop (nat (page * 5)) rows) \<noteq> []"
  using assms by (simp_all add: get_user_entries_paginated_def)

text \<open>
  C7. The page count is the ceiling of total / page size, and at least 1 for an empty
  list (\<open>get_projects_keyboard\<close>); in \<open>show_my_entries_page\<close> the page size is 5 and the
  count is shown whenever the page holds rows. With no rows neither renders a navigation
  token for the only existing page. For 12 rows and page size 5 there are 3 pages, and
  page index 2 starts at offset 10, shows 2 rows, has a previous-page token and no
  next-page token.
\<close>

theorem pagination_total_pages:
  "(0 < page_size \<longrightarrow>
      total_pages n page_size = Inr (max 1 \<lceil>real n / real_of_int page_size\<rceil>)) \<and>
   (0 \<le> page \<and> nat (page * 5) < length rows \<longrightarrow>
      show_my_entries_page ViaCallback rows page =
        Inr [Answer None,
             EditText
               (EntriesPage (page + 1) \<lceil>real (length rows) / 5\<rceil> (page * 5)
                  (take 5 (drop (nat (page * 5)) rows)))
               (Some ((if 0 < page \<or> page < \<lceil>real (length rows) / 5\<rceil> - 1
                       then [(if 0 < page
                              then [Button PrevPage (''entries_page_'' @ str_int (page - 1))]
                              else []) @
                             (if page < \<lceil>real (length rows) / 5\<rceil> - 1
                              then [Button NextPage (''entries_page_'' @ str_int (page + 1))]
                              else [])]
                       else []) @
                      [[Button DeleteEntryCaption (''delete_entries_page_'' @ str_int page)]]))]) \<and>
   (0 \<le> page \<longrightarrow>
      show_my_entries_page ViaCallback [] page = Inr [Answer None, Reply NoEntries None] \<and>
      show_my_entries_page ViaMessage [] page = Inr [Reply NoEntries None]) \<and>
   (0 < page_size \<and> 0 \<le> page \<longrightarrow>
      get_projects_keyboard projects page page_size =
        Inr (map project_button
               (take (nat page_size) (drop (nat (page * page_size)) projects)) @
             (if 0 < page \<or>
                 page < max 1 \<lceil>real (length projects) / real_of_int page_size\<rceil> - 1
              then [(if 0 < page
                     then [Button AdminPrevPage (''admin_projects_page_'' @ str_int (page - 1))]
                     else []) @
                    (if page < max 1 \<lceil>real (length projects) / real_of_int page_size\<rceil> - 1
                     then [Button AdminNextPage (''admin_projects_page_'' @ str_int (page + 1))]
                     else [])]
              else []) @
             [[Button AddProjectCaption ''admin_add_project'',
               Button AdminMenuCaption ''admin_menu'']]))"
proof (intro conjI impI)
  assume "0 < page_size"
  then show "total_pages n page_size = Inr (max 1 \<lceil>real n / real_of_int page_size\<rceil>)"
    by (rule total_pages_ceiling)
next
  assume a: "0 \<le> page \<and> nat (page * 5) < length rows"
  then have p: "0 \<le> page" and q: "nat (page * 5) < length rows" by simp_all
  note r = page_rows_nonempty [OF p q]
  have c: "(int (length rows) + 5 - 1) div 5 = \<lceil>real (length rows) / 5\<rceil>"
    by (rule entries_pages_ceiling)
  show "show_my_entries_page ViaCallback rows page =
        Inr [Answer None,
             EditText
               (EntriesPage (page + 1) \<lceil>real (length rows) / 5\<rceil> (page * 5)
                  (take 5 (drop (nat (page * 5)) rows)))
               (Some ((if 0 < page \<or> page < \<lceil>real (length rows) / 5\<rceil> - 1
                       then [(if 0 < page
                              then [Button PrevPage (''entries_page_'' @ str_int (page - 1))]
                              else []) @
                             (if page < \<lceil>real (length rows) / 5\<rceil> - 1
                              then [Button NextPage (''entries_page_'' @ str_int (page + 1))]
                              else [])]
                       else []) @
                      [[Button DeleteEntryCaption (''delete_entries_page_'' @ str_int page)]]))]"
    unfolding show_my_entries_page_def Let_def r(1) c
    using r(2) by simp
next
  assume "0 \<le> page"
  then show "show_my_entries_page ViaCallback [] page = Inr [Answer None, Reply NoEntries None]"
    by (simp add: show_my_entries_page_def get_user_entries_paginated_def)
next
  assume "0 \<le> page"
  then show "show_my_entries_page ViaMessage [] page = Inr [Reply NoEntries None]"
    by (simp add: show_my_entries_page_def get_user_entries_paginated_def)
next
  assume a: "0 < page_size \<and> 0 \<le> page"
  then have p: "0 \<le> page * page_size" and k: "0 \<le> page_size" by simp_all
  have t: "total_pages (length projects) page_size =
           Inr (max 1 \<lceil>real (length projects) / real_of_int page_size\<rceil>)"
    using a by (simp add: total_pages_ceiling)
  have sl: "py_slice projects (page * page_size) (page * page_size + page_size) =
            take (nat page_size) (drop (nat (page * page_size)) projects)"
    using p k by (rule py_slice_nonneg)
  show "get_projects_keyboard projects page page_size =
        Inr (map project_button
               (take (nat page_size) (drop (nat (page * page_size)) projects)) @
             (if 0 < page \<or>
                 page < max 1 \<lceil>real (length projects) / real_of_int page_size\<rceil> - 1
              then [(if 0 < page
                     then [Button AdminPrevPage (''admin_projects_page_'' @ str_int (page - 1))]
                     else []) @
                    (if page < max 1 \<lceil>real (length projects) / real_of_int page_size\<rceil> - 1
                     then [Button AdminNextPage (''admin_projects_page_'' @ str_int (page + 1))]
                     else [])]
              else []) @
             [[Button AddProjectCaption ''admin_add_project'',
               Button AdminMenuCaption ''admin_menu'']])"
    unfolding get_projects_keyboard_def t Let_def sl by simp
qed

lemma str_int_small:
  "str_int 1 = ''1''" "str_int 2 = ''2''" "str_int 3 = ''3''"
  by (simp_all add: str_int_def digits10.simps)

theorem pagination_total_pages_witness:
  "total_pages 12 5 = Inr 3 \<and>
   total_pages 0 5 = Inr 1 \<and>
   show_my_entries_page ViaCallback [112, 111, 110, 109, 108, 107, 106, 105, 104, 103, 102, 101] 2 =
     Inr [Answer None,
          EditText (EntriesPage 3 3 10 [102, 101])
            (Some [[Button PrevPage ''entries_page_1''],
                   [Button DeleteEntryCaption ''delete_entries_page_2'']])] \<and>
   show_my_entries_page ViaCallback [] 0 = Inr [Answer None, Reply NoEntries None] \<and>
   show_my_entries_page ViaMessage [] 0 = Inr [Reply NoEntries None] \<and>
   get_projects_keyboard [] 0 5 =
     Inr [[Button AddProjectCaption ''admin_add_project'',
           Button AdminMenuCaption ''admin_menu'']] \<and>
   get_projects_keyboard (replicate 12 (7, ''qa'', True, 0)) 2 5 =
     Inr [[Button (ProjectCaption True ''qa'' 0) ''admin_project_7''],
          [Button (ProjectCaption True ''qa'' 0) ''admin_project_7''],
          [Button AdminPrevPage ''admin_projects_page_1''],
          [Button AddProjectCaption ''admin_add_project'',
           Button AdminMenuCaption ''admin_menu'']]"
  using pagination_total_pages
          [of 5 12 2 "[112, 111, 110, 109, 108, 107, 106, 105, 104, 103, 102, 101]"
              "replicate 12 (7, ''qa'', True, 0)"]
        pagination_total_pages [of 5 0 0 "[]" "[]"]
  by (simp add: str_int_small str_int_def digits10.simps eval_nat_numeral)

lemma collect_Inr:
  "collect xs = Inr ys \<Longrightarrow> length ys = length xs \<and> (\<forall>i<length xs. xs ! i = Inr (ys ! i))"
proof (induction xs arbitrary: ys)
  case Nil
  then show ?case by simp
next
  case (Cons x xs)
  from Cons.prems obtain v vs where x: "x = Inr v" and c: "collect xs = Inr vs" and ys: "ys = v # vs"
    by (auto split: sum.splits)
  from Cons.IH [OF c] have l: "length vs = length xs" and n: "\<forall>i<length xs. xs ! i = Inr (vs ! i)"
    by simp_all
  show ?case
  proof (intro conjI allI impI)
    show "length ys = length (x # xs)" using l ys by simp
  next
    fix i assume "i < length (x # xs)"
    then show "(x # xs) ! i = Inr (ys ! i)" using x ys n by (cases i) simp_all
  qed
qed

lemma day_button_Inr:
  assumes "day_button year month today day = Inr b"
  shows "(day = 0 \<longrightarrow> b = Button (Txt '' '') ''cal_ignore'') \<and>
         (day \<noteq> 0 \<and> date_lt today (year, month, day) \<longrightarrow>
            b = Button (Txt (''('' @ str_int day @ '')'')) ''cal_ignore'') \<and>
         (day \<noteq> 0 \<and> \<not> date_lt today (year, month, day) \<longrightarrow>
            b = Button (Txt (str_int day))
                  (''cal_select_'' @ str_int year @ ''_'' @ str_int month @ ''_'' @ str_int day))"
  using assms unfolding day_button_def py_date_def
  by (auto split: if_splits sum.splits)

text \<open>
  C6. In every grid the add-entry calendar produces, a padding cell (day 0) is a blank
  button with the token \<open>cal_ignore\<close>, a day after today is the bracketed day with the
  token \<open>cal_ignore\<close>, and a day up to today carries the token
  \<open>cal_select_<year>_<month>_<day>\<close>. The rows of days follow the two header rows.
\<close>

theorem calendar_day_cells:
  assumes "generate_calendar year month today = Inr kb"
  shows "\<exists>weeks. monthcalendar year month = Inr weeks \<and> length kb = length weeks + 2 \<and>
     (\<forall>i<length weeks. length (kb ! (i + 2)) = length (weeks ! i) \<and>
        (\<forall>j<length (weeks ! i).
           (weeks ! i ! j = 0 \<longrightarrow> kb ! (i + 2) ! j = Button (Txt '' '') ''cal_ignore'') \<and>
           (weeks ! i ! j \<noteq> 0 \<and> date_lt today (year, month, weeks ! i ! j) \<longrightarrow>
              kb ! (i + 2) ! j =
                Button (Txt (''('' @ str_int (weeks ! i ! j) @ '')'')) ''cal_ignore'') \<and>
           (weeks ! i ! j \<noteq> 0 \<and> \<not> date_lt today (year, month, weeks ! i ! j) \<longrightarrow>
              kb ! (i + 2) ! j =
                Button (Txt (str_int (weeks ! i ! j)))
                  (''cal_select_'' @ str_int year @ ''_'' @ str_int month @ ''_'' @
                   str_int (weeks ! i ! j)))))"
proof -
  from assms obtain weeks rows where
    w: "monthcalendar year month = Inr weeks" and
    c: "collect (map (\<lambda>week. collect (map (day_button year month today) week)) weeks) = Inr rows" and
    kb: "kb ! 0 # kb ! 1 # rows = kb" "length kb = length rows + 2"
    unfolding generate_calendar_def by (auto split: sum.splits)
  from collect_Inr [OF c] have lr: "length rows = length weeks" and
    r: "\<forall>i<length weeks. collect (map (day_button year month today) (weeks ! i)) = Inr (rows ! i)"
    by simp_all
  have at: "kb ! (i + 2) = rows ! i" for i
    using kb(1) by (metis add_2_eq_Suc' nth_Cons_Suc)
  have at': "kb ! Suc (Suc i) = rows ! i" for i
    using at [of i] by simp
  show ?thesis
  proof (intro exI [of _ weeks] conjI allI impI)
    show "monthcalendar year month = Inr weeks" by (rule w)
    show "length kb = length weeks + 2" using kb(2) lr by simp
  next
    fix i assume i: "i < length weeks"
    from r i have "collect (map (day_button year month today) (weeks ! i)) = Inr (rows ! i)" by simp
    from collect_Inr [OF this] show "length (kb ! (i + 2)) = length (weeks ! i)" by (simp add: at')
  next
    fix i j assume i: "i < length weeks" and j: "j < length (weeks ! i)"
    from r i have "collect (map (day_button year month today) (weeks ! i)) = Inr (rows ! i)" by simp
    from collect_Inr [OF this] j
    have b: "day_button year month today (weeks ! i ! j) = Inr (kb ! (i + 2) ! j)"
      by (simp add: at')
    note d = day_button_Inr [OF b]
    { assume "weeks ! i ! j = 0"
      then show "kb ! (i + 2) ! j = Button (Txt '' '') ''cal_ignore''" using d by simp }
    { assume "weeks ! i ! j \<noteq> 0 \<and> date_lt today (year, month, weeks ! i ! j)"
      then show "kb ! (i + 2) ! j =
                Button (Txt (''('' @ str_int (weeks ! i ! j) @ '')'')) ''cal_ignore''"
        using d by simp }
    { assume "weeks ! i ! j \<noteq> 0 \<and> \<not> date_lt today (year, month, weeks ! i ! j)"
      then show "kb ! (i + 2) ! j =
                Button (Txt (str_int (weeks ! i ! j)))
                  (''cal_select_'' @ str_int year @ ''_'' @ str_int month @ ''_'' @
                   str_int (weeks ! i ! j))"
        using d by simp }
  qed
qed

lemma june_weeks:
  "monthcalendar 2024 6 =
     Inr [[0, 0, 0, 0, 0, 1, 2], [3, 4, 5, 6, 7, 8, 9], [10, 11, 12, 13, 14, 15, 16],
          [17, 18, 19, 20, 21, 22, 23], [24, 25, 26, 27, 28, 29, 30]]"
  by code_simp

lemma concat_chunks7: "concat (chunks7 xs) = xs"
  by (induction xs rule: chunks7.induct) simp_all

lemma collect_all_Inr:
  "(\<And>x. x \<in> set xs \<Longrightarrow> \<exists>v. f x = Inr v) \<Longrightarrow> \<exists>vs. collect (map f xs) = Inr vs"
proof (induction xs)
  case Nil
  then show ?case by simp
next
  case (Cons a xs)
  then obtain v where v: "f a = Inr v" by auto
  from Cons obtain vs where "collect (map f xs) = Inr vs" by auto
  with v show ?case by simp
qed

lemma monthcalendar_days:
  assumes "monthcalendar year month = Inr weeks" "week \<in> set weeks" "d \<in> set week"
  shows "1 \<le> month \<and> month \<le> 12 \<and> (d = 0 \<or> (1 \<le> d \<and> d \<le> days_in_month year month))"
proof -
  from assms(1) obtain day1 where
    m: "1 \<le> month \<and> month \<le> 12" and
    w: "weeks = chunks7 (replicate (nat (day1 mod 7)) 0 @ [1..days_in_month year month] @
                          replicate (nat ((- day1 - days_in_month year month) mod 7)) 0)"
    unfolding monthcalendar_def monthrange_def
    by (auto split: if_splits sum.splits simp: Let_def)
  from assms(2,3) have "d \<in> set (concat weeks)" by auto
  then have "d \<in> set (replicate (nat (day1 mod 7)) 0 @ [1..days_in_month year month] @
                          replicate (nat ((- day1 - days_in_month year month) mod 7)) 0)"
    unfolding w concat_chunks7 .
  then show ?thesis using m by auto
qed

lemma day_button_total:
  assumes "1 \<le> year" "year \<le> 9999" "1 \<le> month" "month \<le> 12"
    "d = 0 \<or> (1 \<le> d \<and> d \<le> days_in_month year month)"
  shows "\<exists>b. day_button year month today d = Inr b"
  using assms unfolding day_button_def py_date_def by auto

lemma generate_calendar_total:
  assumes "1 \<le> year" "year \<le> 9999" "1 \<le> month" "month \<le> 12"
  shows "\<exists>kb. generate_calendar year month today = Inr kb"
proof -
  obtain weeks where w: "monthcalendar year month = Inr weeks"
    using assms(3,4) unfolding monthcalendar_def monthrange_def by (auto simp: Let_def)
  have "\<exists>row. collect (map (day_button year month today) week) = Inr row"
    if "week \<in> set weeks" for week
  proof (rule collect_all_Inr)
    fix d assume "d \<in> set week"
    from monthcalendar_days [OF w that this] show "\<exists>v. day_button year month today d = Inr v"
      using assms by (intro day_button_total) simp_all
  qed
  then have "\<exists>rows. collect (map (\<lambda>week. collect (map (day_button year month today) week)) weeks) = Inr rows"
    by (rule collect_all_Inr)
  then show ?thesis unfolding generate_calendar_def w by auto
qed
lemma str_int_15_16: "str_int 15 = ''15''" "str_int 16 = ''16''" "str_int 2024 = ''2024''" "str_int 6 = ''6''"
  by code_simp+

theorem calendar_day_cells_witness:
  "(case generate_calendar 2024 6 (2024, 6, 15) of
      Inl e \<Rightarrow> False
    | Inr kb \<Rightarrow>
        kb ! 4 ! 5 = Button (Txt ''15'') ''cal_select_2024_6_15'' \<and>
        kb ! 4 ! 6 = Button (Txt ''(16)'') ''cal_ignore'' \<and>
        kb ! 2 ! 0 = Button (Txt '' '') ''cal_ignore'')"
proof -
  obtain kb where g: "generate_calendar 2024 6 (2024, 6, 15) = Inr kb"
    using generate_calendar_total [of 2024 6 "(2024, 6, 15)"] by auto
  from calendar_day_cells [OF g] obtain weeks where
    w: "monthcalendar 2024 6 = Inr weeks" and
    cells: "\<forall>i<length weeks. length (kb ! (i + 2)) = length (weeks ! i) \<and>
        (\<forall>j<length (weeks ! i).
           (weeks ! i ! j = 0 \<longrightarrow> kb ! (i + 2) ! j = Button (Txt '' '') ''cal_ignore'') \<and>
           (weeks ! i ! j \<noteq> 0 \<and> date_lt (2024, 6, 15) (2024, 6, weeks ! i ! j) \<longrightarrow>
              kb ! (i + 2) ! j =
                Button (Txt (''('' @ str_int (weeks ! i ! j) @ '')'')) ''cal_ignore'') \<and>
           (weeks ! i ! j \<noteq> 0 \<and> \<not> date_lt (2024, 6, 15) (2024, 6, weeks ! i ! j) \<longrightarrow>
              kb ! (i + 2) ! j =
                Button (Txt (str_int (weeks ! i ! j)))
                  (''cal_select_'' @ str_int 2024 @ ''_'' @ str_int 6 @ ''_'' @
                   str_int (weeks ! i ! j))))"
    by blast
  from w june_weeks have weeks:
    "weeks = [[0, 0, 0, 0, 0, 1, 2], [3, 4, 5, 6, 7, 8, 9], [10, 11, 12, 13, 14, 15, 16],
              [17, 18, 19, 20, 21, 22, 23], [24, 25, 26, 27, 28, 29, 30]]"
    by simp
  have i2: "2 < length weeks" and i0: "0 < length weeks" by (simp_all add: weeks)
  have j5: "5 < length (weeks ! 2)" and j6: "6 < length (weeks ! 2)"
    and j0: "0 < length (weeks ! 0)" by (simp_all add: weeks)
  note row2 = cells [rule_format, OF i2, THEN conjunct2, rule_format]
  note row0 = cells [rule_format, OF i0, THEN conjunct2, rule_format]
  from row2 [OF j5] have k15: "kb ! (2 + 2) ! 5 = Button (Txt ''15'') ''cal_select_2024_6_15''"
    by (simp add: weeks str_int_15_16)
  from row2 [OF j6] have k16: "kb ! (2 + 2) ! 6 = Button (Txt ''(16)'') ''cal_ignore''"
    by (simp add: weeks str_int_15_16)
  from row0 [OF j0] have k0: "kb ! (0 + 2) ! 0 = Button (Txt '' '') ''cal_ignore''"
    by (simp add: weeks)
  from k0 have k0': "kb ! 2 ! 0 = Button (Txt '' '') ''cal_ignore''"
    by (simp add: numeral_2_eq_2)
  show ?thesis using g k15 k16 k0' by simp
qed
lemma digit_chars:
  assumes "n < 10"
  shows "digit_of (''0123456789'' ! n) = Some (int n)"
    and "\<not> int_space (''0123456789'' ! n)"
    and "''0123456789'' ! n \<noteq> CHR ''_''"
    and "''0123456789'' ! n \<noteq> CHR ''-''"
    and "''0123456789'' ! n \<noteq> CHR ''+''"
proof -
  from assms have "n \<in> {0, 1, 2, 3, 4, 5, 6, 7, 8, 9}" by auto
  then show "digit_of (''0123456789'' ! n) = Some (int n)"
    and "\<not> int_space (''0123456789'' ! n)"
    and "''0123456789'' ! n \<noteq> CHR ''_''"
    and "''0123456789'' ! n \<noteq> CHR ''-''"
    and "''0123456789'' ! n \<noteq> CHR ''+''"
    by (auto simp: digit_of_def int_space_def)
qed

definition digit_char :: "char \<Rightarrow> bool" where
  "digit_char c = (\<exists>n<10. c = ''0123456789'' ! n)"

lemma digits10_chars: "c \<in> set (digits10 n) \<Longrightarrow> digit_char c"
proof (induction n rule: digits10.induct)
  case (1 n)
  show ?case
  proof (cases "n < 10")
    case True
    with "1.prems" show ?thesis by (auto simp: digits10.simps [of n] digit_char_def)
  next
    case False
    with "1.prems" have "c \<in> set (digits10 (n div 10)) \<or> c = ''0123456789'' ! (n mod 10)"
      by (subst (asm) digits10.simps) auto
    then show ?thesis
    proof
      assume "c \<in> set (digits10 (n div 10))"
      with "1.IH" False show ?thesis by simp
    next
      assume "c = ''0123456789'' ! (n mod 10)"
      then show ?thesis unfolding digit_char_def by (intro exI [of _ "n mod 10"]) simp
    qed
  qed
qed

lemma digits10_nonempty: "digits10 n \<noteq> []"
  by (subst digits10.simps) simp

lemma digits_value_snoc:
  "digits_value (xs @ [c]) = 10 * digits_value xs + the (digit_of c)"
  by (simp add: digits_value_def)

lemma digits_value_digits10: "digits_value (digits10 n) = int n"
proof (induction n rule: digits10.induct)
  case (1 n)
  show ?case
  proof (cases "n < 10")
    case True
    then show ?thesis
      by (simp add: digits10.simps [of n] digits_value_def digit_chars(1))
  next
    case False
    then have "digits_value (digits10 (n div 10)) = int (n div 10)" using "1.IH" by simp
    then show ?thesis using False
      by (simp add: digits10.simps [of n] digits_value_snoc digit_chars(1) zdiv_int zmod_int)
  qed
qed

lemma split_on_no_sep: "c \<notin> set s \<Longrightarrow> split_on c s = [s]"
  by (induction s) auto

lemma split_on_append: "c \<notin> set a \<Longrightarrow> split_on c (a @ c # b) = a # split_on c b"
  by (induction a) auto

lemma digit_char_props:
  assumes "digit_char c"
  shows "digit_of c \<noteq> None" "\<not> int_space c" "c \<noteq> CHR ''_''" "c \<noteq> CHR ''-''" "c \<noteq> CHR ''+''"
  using assms digit_chars unfolding digit_char_def by auto

lemma int_strip_id:
  assumes "\<And>c. c \<in> set s \<Longrightarrow> \<not> int_space c"
  shows "int_strip s = s"
proof -
  have d: "dropWhile int_space t = t" if "\<And>c. c \<in> set t \<Longrightarrow> \<not> int_space c" for t
    using that by (cases t) auto
  have "dropWhile int_space s = s" using assms by (rule d)
  moreover have "dropWhile int_space (rev s) = rev s" using assms by (intro d) simp
  ultimately show ?thesis by (simp add: int_strip_def)
qed

lemma py_nat_digits10: "py_nat (digits10 n) = Some (int n)"
proof -
  have u: "CHR ''_'' \<notin> set (digits10 n)"
    using digits10_chars digit_char_props(3) by blast
  have a: "list_all (\<lambda>c. digit_of c \<noteq> None) (digits10 n)"
    using digits10_chars digit_char_props(1) by (auto simp: list_all_iff)
  show ?thesis
    unfolding py_nat_def split_on_no_sep [OF u] Let_def
    using a by (simp add: digits10_nonempty digits_value_digits10 del: not_None_eq)
qed

lemma str_int_no_space: "c \<in> set (str_int i) \<Longrightarrow> \<not> int_space c"
  using digits10_chars digit_char_props(2)
  by (auto simp: str_int_def int_space_def split: if_splits)

lemma str_int_no_underscore: "CHR ''_'' \<notin> set (str_int i)"
  using digits10_chars digit_char_props(3)
  by (auto simp: str_int_def split: if_splits)

lemma py_int_str_int: "py_int (str_int i) = Some i"
proof (cases "i < 0")
  case True
  have "int_strip (str_int i) = str_int i" by (rule int_strip_id) (rule str_int_no_space)
  then show ?thesis using True
    by (simp add: py_int_def str_int_def py_nat_digits10)
next
  case False
  have s: "int_strip (str_int i) = str_int i" by (rule int_strip_id) (rule str_int_no_space)
  obtain c cs where d: "digits10 (nat i) = c # cs"
    using digits10_nonempty by (cases "digits10 (nat i)") auto
  then have "digit_char c" using digits10_chars [of c "nat i"] by simp
  then have "c \<noteq> CHR ''-''" "c \<noteq> CHR ''+''" using digit_char_props by auto
  moreover have "py_nat (c # cs) = Some i" using py_nat_digits10 [of "nat i"] d False by simp
  ultimately show ?thesis using False s d
    by (simp add: py_int_def str_int_def)
qed

lemma int_field_hit:
  assumes "k < length parts" "parts ! k = str_int i"
  shows "int_field parts k = Inr i"
  using assms by (simp add: int_field_def py_index_def py_int_str_int)

lemma split_cal_nav:
  "split_on CHR ''_'' (''cal_prev_'' @ str_int y @ ''_'' @ str_int m) =
     [''cal'', ''prev'', str_int y, str_int m]"
  "split_on CHR ''_'' (''cal_next_'' @ str_int y @ ''_'' @ str_int m) =
     [''cal'', ''next'', str_int y, str_int m]"
  using split_on_append [OF str_int_no_underscore, of y "str_int m"]
        split_on_no_sep [OF str_int_no_underscore, of m]
  by simp_all

lemma split_report_nav:
  "split_on CHR ''_'' (''report_cal_prev_'' @ str_int y @ ''_'' @ str_int m) =
     [''report'', ''cal'', ''prev'', str_int y, str_int m]"
  "split_on CHR ''_'' (''report_cal_next_'' @ str_int y @ ''_'' @ str_int m) =
     [''report'', ''cal'', ''next'', str_int y, str_int m]"
  using split_on_append [OF str_int_no_underscore, of y "str_int m"]
        split_on_no_sep [OF str_int_no_underscore, of m]
  by simp_all

lemma split_select:
  "split_on CHR ''_'' (''cal_select_'' @ str_int y @ ''_'' @ str_int m @ ''_'' @ str_int d) =
     [''cal'', ''select'', str_int y, str_int m, str_int d]"
  "split_on CHR ''_'' (''report_cal_select_'' @ str_int y @ ''_'' @ str_int m @ ''_'' @ str_int d) =
     [''report'', ''cal'', ''select'', str_int y, str_int m, str_int d]"
  using split_on_append [OF str_int_no_underscore, of y "str_int m @ ''_'' @ str_int d"]
        split_on_append [OF str_int_no_underscore, of m "str_int d"]
        split_on_no_sep [OF str_int_no_underscore, of d]
  by simp_all

lemma report_day_button_total:
  assumes "1 \<le> year" "year \<le> 9999" "1 \<le> month" "month \<le> 12"
    "d = 0 \<or> (1 \<le> d \<and> d \<le> days_in_month year month)"
  shows "\<exists>b. report_day_button year month d = Inr b"
  using assms unfolding report_day_button_def py_date_def by auto

lemma generate_report_calendar_total:
  assumes "1 \<le> year" "year \<le> 9999" "1 \<le> month" "month \<le> 12"
  shows "\<exists>kb. generate_report_calendar year month = Inr kb"
proof -
  obtain weeks where w: "monthcalendar year month = Inr weeks"
    using assms(3,4) unfolding monthcalendar_def monthrange_def by (auto simp: Let_def)
  have "\<exists>row. collect (map (report_day_button year month) week) = Inr row"
    if "week \<in> set weeks" for week
  proof (rule collect_all_Inr)
    fix d assume "d \<in> set week"
    from monthcalendar_days [OF w that this] show "\<exists>v. report_day_button year month d = Inr v"
      using assms by (intro report_day_button_total) simp_all
  qed
  then have "\<exists>rows. collect (map (\<lambda>week. collect (map (report_day_button year month) week)) weeks) = Inr rows"
    by (rule collect_all_Inr)
  then show ?thesis unfolding generate_report_calendar_def w by auto
qed

lemma nav_month_adjacent:
  assumes "1 \<le> month" "month \<le> 12"
  shows "12 * fst (nav_month True year month) + snd (nav_month True year month) = 12 * year + month - 1"
    and "12 * fst (nav_month False year month) + snd (nav_month False year month) = 12 * year + month + 1"
    and "1 \<le> snd (nav_month prev year month)" and "snd (nav_month prev year month) \<le> 12"
  using assms by (auto simp: nav_month_def)

lemma handle_calendar_nav:
  "handle_calendar env uid
     ((if prev then ''cal_prev_'' else ''cal_next_'') @ str_int year @ ''_'' @ str_int month) ctx =
   (if fst (nav_month prev year month) < fst (current_date env) - 1 \<or>
       fst (nav_month prev year month) > fst (current_date env)
    then (Inr RetNone, ctx, [Answer (Some UnavailablePeriod)])
    else
      (case generate_calendar (fst (nav_month prev year month)) (snd (nav_month prev year month))
              (current_date env) of
         Inl e \<Rightarrow> (Inl e, ctx, [])
       | Inr calendar_markup \<Rightarrow>
           (case wizard_summary ctx of
              Inl e \<Rightarrow> (Inl e, ctx, [])
            | Inr text \<Rightarrow>
                (Inr (RetState SELECTING_DATE), ctx, [EditText text (Some calendar_markup)]))))"
proof -
  define data where
    "data = (if prev then ''cal_prev_'' else ''cal_next_'') @ str_int year @ ''_'' @ str_int month"
  have ni: "data \<noteq> ''cal_ignore''"
    and sp: "startswith data ''cal_prev_'' = prev"
    and sn: "startswith data ''cal_next_'' = (\<not> prev)"
    by (simp_all add: data_def startswith_def)
  have parts: "split_on CHR ''_'' data =
                 [''cal'', (if prev then ''prev'' else ''next''), str_int year, str_int month]"
    using split_cal_nav [of year month] by (simp add: data_def)
  have f: "int_field (split_on CHR ''_'' data) 2 = Inr year"
          "int_field (split_on CHR ''_'' data) 3 = Inr month"
    unfolding parts by (rule int_field_hit; simp)+
  show ?thesis
    unfolding handle_calendar_def data_def [symmetric] Let_def f
    by (simp add: ni sp sn case_prod_beta)
qed

lemma handle_report_calendar_nav:
  "handle_report_calendar env uid
     ((if prev then ''report_cal_prev_'' else ''report_cal_next_'') @ str_int year @ ''_'' @
      str_int month) ctx =
   (if fst (nav_month prev year month) < fst (current_date env) - 2 \<or>
       fst (nav_month prev year month) > fst (current_date env) + 1
    then (Inr RetNone, ctx, [Answer (Some UnavailablePeriod)])
    else
      (case generate_report_calendar (fst (nav_month prev year month))
              (snd (nav_month prev year month)) of
         Inl e \<Rightarrow> (Inl e, ctx, [])
       | Inr calendar_markup \<Rightarrow>
           if truthy_get ctx ''report_start_date''
           then (Inr RetNone, ctx,
                 [EditText (ReportEndPrompt (the (ctx ''report_start_date''))) (Some calendar_markup)])
           else (Inr RetNone, ctx, [EditText ReportStartPrompt (Some calendar_markup)])))"
proof -
  define data where
    "data = (if prev then ''report_cal_prev_'' else ''report_cal_next_'') @ str_int year @ ''_'' @
            str_int month"
  have ni: "data \<noteq> ''report_cal_ignore''"
    and sp: "startswith data ''report_cal_prev_'' = prev"
    and sn: "startswith data ''report_cal_next_'' = (\<not> prev)"
    by (simp_all add: data_def startswith_def)
  have parts: "split_on CHR ''_'' data =
                 [''report'', ''cal'', (if prev then ''prev'' else ''next''), str_int year,
                  str_int month]"
    using split_report_nav [of year month] by (simp add: data_def)
  have f: "int_field (split_on CHR ''_'' data) 3 = Inr year"
          "int_field (split_on CHR ''_'' data) 4 = Inr month"
    unfolding parts by (rule int_field_hit; simp)+
  show ?thesis
    unfolding handle_report_calendar_def data_def [symmetric] Let_def f
    by (simp add: ni sp sn case_prod_beta)
qed

text \<open>
  C5. For a cursor (year, month) with month in 1..12, the previous and the next
  navigation lead to the adjacent month (December of the year before, January of the
  year after, at the ends of a year). The add-entry calendar answers the token with the
  notice "period not available", changing nothing, exactly when the year of that month
  is outside [current year - 1, current year]; the report calendar exactly when it is
  outside [current year - 2, current year + 1]. Inside the bounds the calendar of the
  adjacent month is rendered.
\<close>

theorem calendar_navigation:
  assumes "1 \<le> month" "month \<le> 12"
  shows
   "12 * fst (nav_month True year month) + snd (nav_month True year month) = 12 * year + month - 1 \<and>
    12 * fst (nav_month False year month) + snd (nav_month False year month) = 12 * year + month + 1 \<and>
    1 \<le> snd (nav_month prev year month) \<and> snd (nav_month prev year month) \<le> 12 \<and>
    ((handle_calendar env uid
        ((if prev then ''cal_prev_'' else ''cal_next_'') @ str_int year @ ''_'' @ str_int month) ctx
      = (Inr RetNone, ctx, [Answer (Some UnavailablePeriod)])) =
     (fst (nav_month prev year month) < fst (current_date env) - 1 \<or>
      fst (nav_month prev year month) > fst (current_date env))) \<and>
    ((handle_report_calendar env uid
        ((if prev then ''report_cal_prev_'' else ''report_cal_next_'') @ str_int year @ ''_'' @
         str_int month) ctx
      = (Inr RetNone, ctx, [Answer (Some UnavailablePeriod)])) =
     (fst (nav_month prev year month) < fst (current_date env) - 2 \<or>
      fst (nav_month prev year month) > fst (current_date env) + 1)) \<and>
    (fst (current_date env) - 1 \<le> fst (nav_month prev year month) \<and>
     fst (nav_month prev year month) \<le> fst (current_date env) \<and>
     1 \<le> fst (nav_month prev year month) \<and> fst (nav_month prev year month) \<le> 9999 \<and>
     wizard_summary ctx = Inr text \<longrightarrow>
       (\<exists>kb. generate_calendar (fst (nav_month prev year month)) (snd (nav_month prev year month))
               (current_date env) = Inr kb \<and>
             handle_calendar env uid
               ((if prev then ''cal_prev_'' else ''cal_next_'') @ str_int year @ ''_'' @
                str_int month) ctx
             = (Inr (RetState SELECTING_DATE), ctx, [EditText text (Some kb)]))) \<and>
    (fst (current_date env) - 2 \<le> fst (nav_month prev year month) \<and>
     fst (nav_month prev year month) \<le> fst (current_date env) + 1 \<and>
     1 \<le> fst (nav_month prev year month) \<and> fst (nav_month prev year month) \<le> 9999 \<longrightarrow>
       (\<exists>kb. generate_report_calendar (fst (nav_month prev year month))
               (snd (nav_month prev year month)) = Inr kb \<and>
             handle_report_calendar env uid
               ((if prev then ''report_cal_prev_'' else ''report_cal_next_'') @ str_int year @
                ''_'' @ str_int month) ctx
             = (Inr RetNone, ctx,
                [EditText (if truthy_get ctx ''report_start_date''
                           then ReportEndPrompt (the (ctx ''report_start_date''))
                           else ReportStartPrompt) (Some kb)])))"
proof -
  note adj = nav_month_adjacent(1,2) [OF assms, of year] nav_month_adjacent(3,4) [OF assms, of prev year]
  let ?y = "fst (nav_month prev year month)" and ?m = "snd (nav_month prev year month)"
  have rej: "(handle_calendar env uid
        ((if prev then ''cal_prev_'' else ''cal_next_'') @ str_int year @ ''_'' @ str_int month) ctx
      = (Inr RetNone, ctx, [Answer (Some UnavailablePeriod)])) =
     (?y < fst (current_date env) - 1 \<or> ?y > fst (current_date env))"
    unfolding handle_calendar_nav by (auto split: sum.splits)
  have rrej: "(handle_report_calendar env uid
        ((if prev then ''report_cal_prev_'' else ''report_cal_next_'') @ str_int year @ ''_'' @
         str_int month) ctx
      = (Inr RetNone, ctx, [Answer (Some UnavailablePeriod)])) =
     (?y < fst (current_date env) - 2 \<or> ?y > fst (current_date env) + 1)"
    unfolding handle_report_calendar_nav by (auto split: sum.splits)
  have acc: "\<exists>kb. generate_calendar ?y ?m (current_date env) = Inr kb \<and>
             handle_calendar env uid
               ((if prev then ''cal_prev_'' else ''cal_next_'') @ str_int year @ ''_'' @
                str_int month) ctx
             = (Inr (RetState SELECTING_DATE), ctx, [EditText text (Some kb)])"
    if "fst (current_date env) - 1 \<le> ?y \<and> ?y \<le> fst (current_date env) \<and>
        1 \<le> ?y \<and> ?y \<le> 9999 \<and> wizard_summary ctx = Inr text"
  proof -
    from that adj obtain kb where "generate_calendar ?y ?m (current_date env) = Inr kb"
      using generate_calendar_total [of ?y ?m "current_date env"] by auto
    then show ?thesis using that unfolding handle_calendar_nav by auto
  qed
  have racc: "\<exists>kb. generate_report_calendar ?y ?m = Inr kb \<and>
             handle_report_calendar env uid
               ((if prev then ''report_cal_prev_'' else ''report_cal_next_'') @ str_int year @
                ''_'' @ str_int month) ctx
             = (Inr RetNone, ctx,
                [EditText (if truthy_get ctx ''report_start_date''
                           then ReportEndPrompt (the (ctx ''report_start_date''))
                           else ReportStartPrompt) (Some kb)])"
    if "fst (current_date env) - 2 \<le> ?y \<and> ?y \<le> fst (current_date env) + 1 \<and>
        1 \<le> ?y \<and> ?y \<le> 9999"
  proof -
    from that adj obtain kb where "generate_report_calendar ?y ?m = Inr kb"
      using generate_report_calendar_total [of ?y ?m] by auto
    then show ?thesis using that unfolding handle_report_calendar_nav by auto
  qed
  show ?thesis using adj rej rrej acc racc by blast
qed

lemma str_int_samples:
  "str_int 2023 = ''2023''" "str_int 2024 = ''2024''" "str_int 1 = ''1''" "str_int 6 = ''6''"
  "str_int 12 = ''12''"
  by code_simp+

theorem calendar_navigation_witness:
  "nav_month True 2023 1 = (2022, 12) \<and>
   handle_calendar sample_env 7 ''cal_prev_2023_1'' Map.empty =
     (Inr RetNone, Map.empty, [Answer (Some UnavailablePeriod)]) \<and>
   handle_report_calendar sample_env 7 ''report_cal_prev_2023_1'' Map.empty \<noteq>
     (Inr RetNone, Map.empty, [Answer (Some UnavailablePeriod)]) \<and>
   handle_calendar sample_env 7 ''cal_next_2024_12'' Map.empty =
     (Inr RetNone, Map.empty, [Answer (Some UnavailablePeriod)])"
  using calendar_navigation [of 1 2023 True sample_env 7 Map.empty]
        calendar_navigation [of 12 2024 False sample_env 7 Map.empty]
  by (simp add: str_int_samples nav_month_def sample_env_def)

text \<open>
  C8. In the hours step, with the project chosen: a text that \<open>float\<close> refuses gets the
  format notice, a finite value outside (0, 24] and an infinity get the range notice,
  both leaving \<open>user_data\<close> and the state as they are; a finite value in (0, 24] is
  stored as \<open>selected_hours\<close> and the wizard asks for the description. NaN, which is
  not in (0, 24], passes both comparisons and is stored as well.
\<close>

theorem hours_input_cases:
  assumes "ctx ''selected_project_name'' = Some name"
  shows
   "(float_of env (replace_char CHR '','' CHR ''.'' text) = None \<longrightarrow>
       handle_hours_input env text ctx =
         (Inr (RetState ENTERING_HOURS), ctx, [Reply BadHoursFormat None])) \<and>
    (float_of env (replace_char CHR '','' CHR ''.'' text) = Some (Fin x) \<and> 0 < x \<and> x \<le> 24 \<longrightarrow>
       handle_hours_input env text ctx =
         (Inr (RetState ENTERING_DESCRIPTION), ctx(''selected_hours'' \<mapsto> PFloat (Fin x)),
          [Reply (DescriptionPrompt name (Fin x)) (Some skip_keyboard)])) \<and>
    (float_of env (replace_char CHR '','' CHR ''.'' text) = Some (Fin x) \<and> (x \<le> 0 \<or> 24 < x) \<longrightarrow>
       handle_hours_input env text ctx =
         (Inr (RetState ENTERING_HOURS), ctx, [Reply BadHoursRange None])) \<and>
    (float_of env (replace_char CHR '','' CHR ''.'' text) \<in> {Some PosInf, Some NegInf} \<longrightarrow>
       handle_hours_input env text ctx =
         (Inr (RetState ENTERING_HOURS), ctx, [Reply BadHoursRange None])) \<and>
    (float_of env (replace_char CHR '','' CHR ''.'' text) = Some NaN \<longrightarrow>
       handle_hours_input env text ctx =
         (Inr (RetState ENTERING_DESCRIPTION), ctx(''selected_hours'' \<mapsto> PFloat NaN),
          [Reply (DescriptionPrompt name NaN) (Some skip_keyboard)]))"
  using assms by (auto simp: handle_hours_input_def)

theorem hours_input_cases_witness:
  "handle_hours_input sample_env ''nan'' [''selected_project_name'' \<mapsto> PStr ''dev''] =
     (Inr (RetState ENTERING_DESCRIPTION),
      [''selected_project_name'' \<mapsto> PStr ''dev'', ''selected_hours'' \<mapsto> PFloat NaN],
      [Reply (DescriptionPrompt (PStr ''dev'') NaN) (Some skip_keyboard)]) \<and>
   handle_hours_input sample_env ''1,5'' [''selected_project_name'' \<mapsto> PStr ''dev''] =
     (Inr (RetState ENTERING_DESCRIPTION),
      [''selected_project_name'' \<mapsto> PStr ''dev'', ''selected_hours'' \<mapsto> PFloat (Fin (3 / 2))],
      [Reply (DescriptionPrompt (PStr ''dev'') (Fin (3 / 2))) (Some skip_keyboard)]) \<and>
   handle_hours_input sample_env ''25'' [''selected_project_name'' \<mapsto> PStr ''dev''] =
     (Inr (RetState ENTERING_HOURS), [''selected_project_name'' \<mapsto> PStr ''dev''],
      [Reply BadHoursRange None]) \<and>
   handle_hours_input sample_env ''abc'' [''selected_project_name'' \<mapsto> PStr ''dev''] =
     (Inr (RetState ENTERING_HOURS), [''selected_project_name'' \<mapsto> PStr ''dev''],
      [Reply BadHoursFormat None])"
  using hours_input_cases [of "[''selected_project_name'' \<mapsto> PStr ''dev'']" "PStr ''dev''"
          sample_env "''nan''" 0]
        hours_input_cases [of "[''selected_project_name'' \<mapsto> PStr ''dev'']" "PStr ''dev''"
          sample_env "''1,5''" "3 / 2"]
        hours_input_cases [of "[''selected_project_name'' \<mapsto> PStr ''dev'']" "PStr ''dev''"
          sample_env "''25''" 25]
        hours_input_cases [of "[''selected_project_name'' \<mapsto> PStr ''dev'']" "PStr ''dev''"
          sample_env "''abc''" 0]
  by (simp add: sample_env_def replace_char_def)

text \<open>
  C2. When the insert of the entry fails, the exception leaves \<open>select_date\<close> and the
  \<open>cal_select\<close> branch of \<open>handle_calendar\<close> as it is: nothing is rendered, \<open>user_data\<close> is
  not cleared, and the conversation stays in \<open>SELECTING_DATE\<close>.
\<close>

lemma save_entry_fails:
  assumes "ctx ''selected_project_id'' = Some p" "ctx ''selected_hours'' = Some h"
    "\<not> add_time_entry env uid p h (description_of ctx) date_str"
  shows "save_entry env uid date_str formatted ctx = (Inl DatabaseError, ctx, [])"
  using assms by (simp add: save_entry_def)

theorem failed_save_propagates:
  assumes "ctx ''selected_project_id'' = Some p" "ctx ''selected_hours'' = Some h"
    and "\<And>date_str. \<not> add_time_entry env uid p h (description_of ctx) date_str"
    and "startswith data ''date_''" "data \<noteq> ''date_custom''"
  shows
   "select_date env uid data ctx = (Inl DatabaseError, ctx, []) \<and>
    handle_calendar env uid
      (''cal_select_'' @ str_int year @ ''_'' @ str_int month @ ''_'' @ str_int day) ctx =
      (Inl DatabaseError, ctx, []) \<and>
    process_update env uid (Some SELECTING_DATE, ctx) (Callback data) =
      (Some SELECTING_DATE, ctx) \<and>
    process_update env uid (Some SELECTING_DATE, ctx)
      (Callback (''cal_select_'' @ str_int year @ ''_'' @ str_int month @ ''_'' @ str_int day)) =
      (Some SELECTING_DATE, ctx)"
proof -
  define d1 where "d1 = data"
  define d2 where
    "d2 = ''cal_select_'' @ str_int year @ ''_'' @ str_int month @ ''_'' @ str_int day"
  have a: "d1 \<noteq> ''date_custom''" "startswith d1 ''date_''"
    using assms(4,5) by (simp_all add: d1_def)
  have pre: "after_first CHR ''_'' (''date_'' @ r) = Inr r" for r
    by (simp add: after_first_def)
  have "length ''date_'' = 5" by simp
  with a(2) have "take 5 d1 = ''date_''" unfolding startswith_def by metis
  then have "d1 = ''date_'' @ drop 5 d1"
    using append_take_drop_id [of 5 d1] by simp
  then have af: "after_first CHR ''_'' d1 = Inr (drop 5 d1)"
    using pre [of "drop 5 d1"] by simp
  have s1: "select_date env uid d1 ctx = (Inl DatabaseError, ctx, [])"
    unfolding select_date_def using a af save_entry_fails [OF assms(1,2) assms(3)] by simp
  have b: "d2 \<noteq> ''cal_ignore''" "\<not> startswith d2 ''cal_prev_''" "\<not> startswith d2 ''cal_next_''"
    "startswith d2 ''cal_select_''" "\<not> startswith d2 ''date_''" "startswith d2 ''cal_''"
    by (simp_all add: d2_def startswith_def)
  have parts: "split_on CHR ''_'' d2 = [''cal'', ''select'', str_int year, str_int month, str_int day]"
    unfolding d2_def by (rule split_select)
  have f: "int_field (split_on CHR ''_'' d2) 2 = Inr year"
          "int_field (split_on CHR ''_'' d2) 3 = Inr month"
          "int_field (split_on CHR ''_'' d2) 4 = Inr day"
    unfolding parts by (rule int_field_hit; simp)+
  have s2: "handle_calendar env uid d2 ctx = (Inl DatabaseError, ctx, [])"
    unfolding handle_calendar_def Let_def f using b save_entry_fails [OF assms(1,2) assms(3)]
    by simp
  have p1: "process_update env uid (Some SELECTING_DATE, ctx) (Callback d1) = (Some SELECTING_DATE, ctx)"
    by (simp add: process_update_def add_hours_handler_def a s1)
  have p2: "process_update env uid (Some SELECTING_DATE, ctx) (Callback d2) = (Some SELECTING_DATE, ctx)"
    by (simp add: process_update_def add_hours_handler_def b s2)
  show ?thesis using s1 s2 p1 p2 unfolding d1_def d2_def by simp
qed

lemma str_int_14: "str_int 14 = ''14''"
  by code_simp

theorem failed_save_propagates_witness:
  "select_date failing_env 7 ''date_2024-06-15'' sample_wizard =
     (Inl DatabaseError, sample_wizard, []) \<and>
   handle_calendar failing_env 7 ''cal_select_2024_6_14'' sample_wizard =
     (Inl DatabaseError, sample_wizard, []) \<and>
   process_update failing_env 7 (Some SELECTING_DATE, sample_wizard)
     (Callback ''date_2024-06-15'') = (Some SELECTING_DATE, sample_wizard) \<and>
   process_update failing_env 7 (Some SELECTING_DATE, sample_wizard)
     (Callback ''cal_select_2024_6_14'') = (Some SELECTING_DATE, sample_wizard) \<and>
   sample_wizard ''selected_hours'' = Some (PFloat (Fin 2))"
  using failed_save_propagates [of sample_wizard "PInt 1" "PFloat (Fin 2)" failing_env 7
          "''date_2024-06-15''" 2024 6 14]
  by (simp add: sample_wizard_def failing_env_def sample_env_def startswith_def
        str_int_samples str_int_14)

text \<open>With a database that accepts the insert the same press saves the entry and clears.\<close>

lemma save_succeeds:
  "select_date sample_env 7 ''date_2024-06-15'' sample_wizard =
     (Inr RetEnd, Map.empty,
      [Inserted 7 (PInt 1) (PFloat (Fin 2)) PNone ''2024-06-15'', Answer None,
       Reply (EntryAdded (PStr ''dev'') (PFloat (Fin 2)) None ''15.06.2024'') None])"
proof -
  have st: "strptime ''2024-06-15'' = Inr (2024, 6, 15)" by code_simp
  have d: "fmt02 15 = ''15''" "fmt02 6 = ''06''" "str_int 2024 = ''2024''" by code_simp+
  show ?thesis
    by (simp add: select_date_def save_entry_def after_first_def description_of_def
          sample_wizard_def sample_env_def st d)
qed

lemma int_field_miss:
  assumes "k < length parts" "py_int (parts ! k) = None"
  shows "int_field parts k = Inl ValueError"
  using assms by (simp add: int_field_def py_index_def)

text \<open>
  C9, as the code has it. A banned user who presses a button whose token does not
  start with \<open>admin_\<close>, sends a text to \<open>handle_text_message\<close> or starts the add-entry
  wizard gets the ban notice and nothing else happens: \<open>user_data\<close> is left as it is.
  \<open>start_add_hours\<close> ends the conversation; the other two leave its state alone.
\<close>

theorem banned_user_notice:
  assumes "is_banned env uid"
  shows
   "(\<not> startswith data ''admin_'' \<longrightarrow>
       button_handler env uid data ctx =
         (Inr RetNone, ctx, [Answer (Some BannedShort), EditText Banned None])) \<and>
    handle_text_message env uid text ctx = (Inr RetNone, ctx, [Reply Banned None]) \<and>
    start_add_hours env uid via ctx = (Inr RetEnd, ctx, [render via Banned None]) \<and>
    process_update env uid (None, ctx) (Callback ''add_hours'') = (None, ctx)"
  using assms
  by (simp add: button_handler_def handle_text_message_def start_add_hours_def
        process_update_def add_hours_handler_def re_whole_def)

theorem banned_user_notice_witness:
  "button_handler sample_env 13 ''my_entries'' sample_wizard =
     (Inr RetNone, sample_wizard, [Answer (Some BannedShort), EditText Banned None]) \<and>
   handle_text_message sample_env 13 ''hello'' sample_wizard =
     (Inr RetNone, sample_wizard, [Reply Banned None]) \<and>
   start_add_hours sample_env 13 ViaCallback sample_wizard =
     (Inr RetEnd, sample_wizard, [EditText Banned None])"
  using banned_user_notice [of sample_env 13 "''my_entries''" sample_wizard "''hello''" ViaCallback]
  by (simp add: sample_env_def startswith_def)

text \<open>
  The claim as stated fails twice: after the ban notice the wizard's fields are still in
  \<open>user_data\<close>, and a banned user inside the wizard is not stopped at all, since the
  handlers of the wizard's steps do not look at the ban.
\<close>

theorem banned_user_counterexample:
  "fst (snd (button_handler sample_env 13 ''my_entries'' sample_wizard)) ''selected_hours'' =
     Some (PFloat (Fin 2)) \<and>
   is_banned sample_env 13 \<and>
   process_update sample_env 13 (Some ENTERING_HOURS, [''selected_project_name'' \<mapsto> PStr ''dev''])
     (Text ''2'') =
     (Some ENTERING_DESCRIPTION,
      [''selected_project_name'' \<mapsto> PStr ''dev'', ''selected_hours'' \<mapsto> PFloat (Fin 2)])"
  by (simp add: button_handler_def startswith_def sample_env_def sample_wizard_def
        process_update_def add_hours_handler_def handle_hours_input_def replace_char_def)

lemma digit_char_nth: "n < 10 \<Longrightarrow> digit_char (''0123456789'' ! n)"
  unfolding digit_char_def by blast

lemma digits10_one: "n < 10 \<Longrightarrow> digits10 n = [''0123456789'' ! n]"
  by (subst digits10.simps) simp

lemma digits10_step: "\<not> n < 10 \<Longrightarrow> digits10 n = digits10 (n div 10) @ [''0123456789'' ! (n mod 10)]"
  by (subst digits10.simps) simp

lemma length_digits10_2: "10 \<le> n \<Longrightarrow> n < 100 \<Longrightarrow> length (digits10 n) = 2"
  by (simp add: digits10_step digits10_one)

lemma length_digits10_4: "1000 \<le> n \<Longrightarrow> n < 10000 \<Longrightarrow> length (digits10 n) = 4"
proof -
  assume a: "1000 \<le> n" "n < 10000"
  then have "100 \<le> n div 10" "n div 10 < 1000" by simp_all
  moreover from this have "10 \<le> n div 10 div 10" "n div 10 div 10 < 100" by simp_all
  ultimately show ?thesis using a
    by (simp add: digits10_step [of n] digits10_step [of "n div 10"] length_digits10_2)
qed

lemma all_digits_digits10: "all_digits (digits10 n)"
  unfolding all_digits_def list_all_iff
  using digits10_chars digit_char_props(1) by blast

lemma dash_notin_digits10: "CHR ''-'' \<notin> set (digits10 n)"
  using digits10_chars digit_char_props(4) by blast

lemma zero_digit: "digit_of CHR ''0'' = Some 0"
  by (simp add: digit_of_def)

lemma digits_value_zero_Cons: "digits_value (CHR ''0'' # ds) = digits_value ds"
  by (simp add: digits_value_def zero_digit)

lemma fmt02_props:
  assumes "0 \<le> i" "i < 100"
  shows "length (fmt02 i) = 2" "all_digits (fmt02 i)" "digits_value (fmt02 i) = i"
    "CHR ''-'' \<notin> set (fmt02 i)" "hd (fmt02 i) \<noteq> CHR '' ''"
proof -
  have sp: "c \<noteq> CHR '' ''" if "digit_char c" for c
    using digit_char_props(2) [OF that] by (auto simp: int_space_def)
  show "length (fmt02 i) = 2"
    using assms by (auto simp: fmt02_def str_int_def digits10_one length_digits10_2)
  show "all_digits (fmt02 i)"
    using assms all_digits_digits10 [of "nat i"]
    by (auto simp: fmt02_def str_int_def all_digits_def zero_digit)
  show "digits_value (fmt02 i) = i"
    using assms by (auto simp: fmt02_def str_int_def digits_value_zero_Cons digits_value_digits10)
  show "CHR ''-'' \<notin> set (fmt02 i)"
    using assms dash_notin_digits10 [of "nat i"] by (auto simp: fmt02_def str_int_def)
  show "hd (fmt02 i) \<noteq> CHR '' ''"
  proof (cases "i < 10")
    case True
    then show ?thesis using assms by (simp add: fmt02_def)
  next
    case False
    obtain c cs where d: "digits10 (nat i) = c # cs"
      using digits10_nonempty by (cases "digits10 (nat i)") auto
    then have "digit_char c" using digits10_chars [of c "nat i"] by simp
    then show ?thesis using False assms d sp by (simp add: fmt02_def str_int_def)
  qed
qed

lemma days_in_month_le: "days_in_month y m \<le> 31"
  by (simp add: days_in_month_def)

lemma strptime_iso:
  assumes "1000 \<le> y" "y \<le> 9999" "1 \<le> m" "m \<le> 12" "1 \<le> d" "d \<le> days_in_month y m"
  shows "strptime (str_int y @ ''-'' @ fmt02 m @ ''-'' @ fmt02 d) = Inr (y, m, d)"
proof -
  have y: "str_int y = digits10 (nat y)" using assms by (simp add: str_int_def)
  have d31: "d \<le> 31" using assms(6) days_in_month_le [of y m] by simp
  note pm = fmt02_props [of m] and pd = fmt02_props [of d]
  have m100: "0 \<le> m" "m < 100" and d100: "0 \<le> d" "d < 100" using assms d31 by simp_all
  have sp: "split_on CHR ''-'' (str_int y @ ''-'' @ fmt02 m @ ''-'' @ fmt02 d) =
            [str_int y, fmt02 m, fmt02 d]"
    using split_on_append [of "CHR ''-''" "str_int y" "fmt02 m @ ''-'' @ fmt02 d"]
          split_on_append [of "CHR ''-''" "fmt02 m" "fmt02 d"]
          split_on_no_sep [of "CHR ''-''" "fmt02 d"]
          dash_notin_digits10 [of "nat y"] pm(4) [OF m100] pd(4) [OF d100]
    by (simp add: y)
  have ly: "length (str_int y) = 4" using assms by (simp add: y length_digits10_4)
  have vy: "digits_value (str_int y) = y" using assms by (simp add: y digits_value_digits10)
  have ay: "all_digits (str_int y)" by (simp add: y all_digits_digits10)
  have pdte: "py_date y m d = Inr (y, m, d)" using assms by (simp add: py_date_def)
  show ?thesis
    unfolding strptime_def sp
    using ly vy ay pm(1,2,3,5) [OF m100] pd(1,2,3,5) [OF d100] assms d31 pdte
    by (simp add: Let_def)
qed

lemma report_select_end:
  assumes "ctx ''report_start_date'' = Some (PStr start)" "start \<noteq> []"
    "ctx ''report_start_date_formatted'' = Some f"
    "strptime start = Inr s"
    "strptime (str_int ey @ ''-'' @ fmt02 em @ ''-'' @ fmt02 ed) = Inr e"
  shows
   "handle_report_calendar env uid
      (''report_cal_select_'' @ str_int ey @ ''_'' @ str_int em @ ''_'' @ str_int ed) ctx =
    (if date_lt e s then (Inr RetNone, ctx, [Answer (Some EndBeforeStart)])
     else if toordinal e - toordinal s > 365 then (Inr RetNone, ctx, [Answer (Some PeriodTooLong)])
     else
       (case custom_period_report env (target_user ctx uid) start
               (str_int ey @ ''-'' @ fmt02 em @ ''-'' @ fmt02 ed) of
          None \<Rightarrow> (Inl DatabaseError, ctx, [])
        | Some report_text \<Rightarrow>
            (Inr RetNone,
             ctx(''report_start_date'' := None, ''report_start_date_formatted'' := None),
             [Answer None, Reply (ReportText report_text) None])))"
proof -
  define data where
    "data = ''report_cal_select_'' @ str_int ey @ ''_'' @ str_int em @ ''_'' @ str_int ed"
  have n: "data \<noteq> ''report_cal_ignore''" "\<not> startswith data ''report_cal_prev_''"
    "\<not> startswith data ''report_cal_next_''" "startswith data ''report_cal_select_''"
    by (simp_all add: data_def startswith_def)
  have parts: "split_on CHR ''_'' data =
                 [''report'', ''cal'', ''select'', str_int ey, str_int em, str_int ed]"
    unfolding data_def by (rule split_select)
  have fl: "int_field (split_on CHR ''_'' data) 3 = Inr ey"
           "int_field (split_on CHR ''_'' data) 4 = Inr em"
           "int_field (split_on CHR ''_'' data) 5 = Inr ed"
    unfolding parts by (rule int_field_hit; simp)+
  have t: "truthy_get ctx ''report_start_date''"
    using assms(1,2) by (simp add: truthy_get_def)
  show ?thesis
    unfolding data_def [symmetric] handle_report_calendar_def Let_def fl
    using n t assms(1,3,4,5) by simp
qed

text \<open>
  C4. With a start date stored, selecting an end date is answered with a notice and
  changes nothing when the end is before the start or more than 365 days after it;
  otherwise the report of the range is sent for the target user and the two range
  fields are removed from \<open>user_data\<close>. Both dates are dates of the calendar (years 1000
  to 9999, as the four-digit year of the stored string needs), and the report service
  returns.
\<close>

theorem report_range_check:
  assumes "1000 \<le> sy" "sy \<le> 9999" "1 \<le> sm" "sm \<le> 12" "1 \<le> sd" "sd \<le> days_in_month sy sm"
    and "1000 \<le> ey" "ey \<le> 9999" "1 \<le> em" "em \<le> 12" "1 \<le> ed" "ed \<le> days_in_month ey em"
    and "ctx ''report_start_date'' = Some (PStr (iso_date (sy, sm, sd)))"
    and "ctx ''report_start_date_formatted'' = Some f"
    and "custom_period_report env (target_user ctx uid) (iso_date (sy, sm, sd))
           (iso_date (ey, em, ed)) = Some report_text"
  shows
   "handle_report_calendar env uid
      (''report_cal_select_'' @ str_int ey @ ''_'' @ str_int em @ ''_'' @ str_int ed) ctx =
    (if date_lt (ey, em, ed) (sy, sm, sd) \<or>
        toordinal (ey, em, ed) - toordinal (sy, sm, sd) > 365
     then (Inr RetNone, ctx,
           [Answer (Some (if date_lt (ey, em, ed) (sy, sm, sd) then EndBeforeStart
                          else PeriodTooLong))])
     else (Inr RetNone,
           ctx(''report_start_date'' := None, ''report_start_date_formatted'' := None),
           [Answer None, Reply (ReportText report_text) None]))"
proof -
  have s: "strptime (iso_date (sy, sm, sd)) = Inr (sy, sm, sd)"
    using strptime_iso [OF assms(1-6)] by simp
  have e: "strptime (str_int ey @ ''-'' @ fmt02 em @ ''-'' @ fmt02 ed) = Inr (ey, em, ed)"
    by (rule strptime_iso [OF assms(7-12)])
  have ne: "iso_date (sy, sm, sd) \<noteq> []" by simp
  have r: "custom_period_report env (target_user ctx uid) (iso_date (sy, sm, sd))
             (str_int ey @ ''-'' @ fmt02 em @ ''-'' @ fmt02 ed) = Some report_text"
    using assms(15) by simp
  show ?thesis
    unfolding report_select_end [OF assms(13) ne assms(14) s e] r
    by (simp del: date_lt.simps toordinal.simps iso_date.simps)
qed

lemma ordinal_samples:
  "toordinal (2024, 6, 1) - toordinal (2024, 1, 1) = 152"
  "toordinal (2025, 6, 1) - toordinal (2024, 1, 1) = 517"
  "toordinal (2024, 6, 1) - toordinal (2024, 6, 10) = - 9"
  by code_simp+

lemma iso_samples:
  "iso_date (2024, 6, 10) = ''2024-06-10''" "iso_date (2024, 1, 1) = ''2024-01-01''"
  "iso_date (2024, 6, 1) = ''2024-06-01''" "iso_date (2025, 6, 1) = ''2025-06-01''"
  "str_int 2025 = ''2025''" "days_in_month 2024 6 = 30" "days_in_month 2024 1 = 31"
  "days_in_month 2025 6 = 30"
  by code_simp+

theorem report_range_check_witness:
  "handle_report_calendar sample_env 7 ''report_cal_select_2024_6_1''
     [''report_start_date'' \<mapsto> PStr ''2024-06-10'', ''report_start_date_formatted'' \<mapsto> PStr ''10.06.2024''] =
     (Inr RetNone,
      [''report_start_date'' \<mapsto> PStr ''2024-06-10'', ''report_start_date_formatted'' \<mapsto> PStr ''10.06.2024''],
      [Answer (Some EndBeforeStart)]) \<and>
   handle_report_calendar sample_env 7 ''report_cal_select_2025_6_1''
     [''report_start_date'' \<mapsto> PStr ''2024-01-01'', ''report_start_date_formatted'' \<mapsto> PStr ''01.01.2024''] =
     (Inr RetNone,
      [''report_start_date'' \<mapsto> PStr ''2024-01-01'', ''report_start_date_formatted'' \<mapsto> PStr ''01.01.2024''],
      [Answer (Some PeriodTooLong)]) \<and>
   handle_report_calendar sample_env 7 ''report_cal_select_2024_6_1''
     [''report_start_date'' \<mapsto> PStr ''2024-01-01'', ''report_start_date_formatted'' \<mapsto> PStr ''01.01.2024''] =
     (Inr RetNone, Map.empty, [Answer None, Reply (ReportText ''2024-01-01..2024-06-01'') None])"
  using report_range_check [of 2024 6 10 2024 6 1
          "[''report_start_date'' \<mapsto> PStr ''2024-06-10'', ''report_start_date_formatted'' \<mapsto> PStr ''10.06.2024'']"
          "PStr ''10.06.2024''" sample_env 7 "''2024-06-10..2024-06-01''"]
        report_range_check [of 2024 1 1 2025 6 1
          "[''report_start_date'' \<mapsto> PStr ''2024-01-01'', ''report_start_date_formatted'' \<mapsto> PStr ''01.01.2024'']"
          "PStr ''01.01.2024''" sample_env 7 "''2024-01-01..2025-06-01''"]
        report_range_check [of 2024 1 1 2024 6 1
          "[''report_start_date'' \<mapsto> PStr ''2024-01-01'', ''report_start_date_formatted'' \<mapsto> PStr ''01.01.2024'']"
          "PStr ''01.01.2024''" sample_env 7 "''2024-01-01..2024-06-01''"]
  by (simp add: iso_samples ordinal_samples str_int_samples sample_env_def target_user_def
        del: iso_date.simps toordinal.simps)
























































end
